theory Spec2Isabelle
  imports Complex_Main
begin

section \<open>Numbers\<close>

text \<open>
  A JavaScript number is an IEEE 754 double. A finite double is modelled by the rational it
  denotes (the two zeros are one value, which no sum or product can tell apart), next to
  the two infinities and NaN. A sum or a product is the exact result rounded to the
  nearest double, ties to the even significand: 53 significant bits, exponents from -1022
  up (below, the subnormal numbers keep the spacing \<open>pow2 (-1074)\<close>), and infinity from
  \<open>pow2 1024\<close> on. A decimal literal of the source denotes the double nearest to it.
\<close>

datatype jsnum = Fin rat | PInf | NInf | NaN

definition pow2 :: "int \<Rightarrow> rat" where
  "pow2 k = (if 0 \<le> k then 2 ^ nat k else 1 / 2 ^ nat (- k))"

text \<open>The exponent \<open>e\<close> of a positive rational \<open>a\<close>: \<open>pow2 e \<le> a < pow2 (e + 1)\<close>.\<close>

function floor_log2 :: "rat \<Rightarrow> int" where
  "floor_log2 a =
     (if a \<le> 0 then 0
      else if 2 \<le> a then floor_log2 (a / 2) + 1
      else if a < 1 then floor_log2 (a * 2) - 1
      else 0)"
  by pat_completeness auto
termination
proof (relation "measure (\<lambda>a. if 1 \<le> a then 2 * nat \<lfloor>a\<rfloor> else 2 * nat \<lfloor>1 / a\<rfloor> + 1)")
  show "wf (measure (\<lambda>a::rat. if 1 \<le> a then 2 * nat \<lfloor>a\<rfloor> else 2 * nat \<lfloor>1 / a\<rfloor> + 1))"
    by simp
next
  fix a :: rat
  assume "\<not> a \<le> 0" and big: "2 \<le> a"
  have h: "nat \<lfloor>a / 2\<rfloor> < nat \<lfloor>a\<rfloor>"
    using big by linarith
  have c1: "1 \<le> a / 2" and c2: "1 \<le> a"
    using big by simp_all
  show "(a / 2, a) \<in> measure (\<lambda>a. if 1 \<le> a then 2 * nat \<lfloor>a\<rfloor> else 2 * nat \<lfloor>1 / a\<rfloor> + 1)"
    unfolding in_measure using h by (simp only: c1 c2 if_True; linarith)
next
  fix a :: rat
  assume pos: "\<not> a \<le> 0" and "\<not> 2 \<le> a" and lt: "a < 1"
  have c2: "\<not> 1 \<le> a"
    using lt by simp
  have half: "nat \<lfloor>b / 2\<rfloor> < nat \<lfloor>b\<rfloor>" if "2 \<le> b" for b :: rat
    using that by linarith
  show "(a * 2, a) \<in> measure (\<lambda>a. if 1 \<le> a then 2 * nat \<lfloor>a\<rfloor> else 2 * nat \<lfloor>1 / a\<rfloor> + 1)"
  proof (cases "1 \<le> a * 2")
    case True
    have "\<lfloor>a * 2\<rfloor> = 1"
      using True lt by linarith
    then have h1: "nat \<lfloor>a * 2\<rfloor> = 1"
      by simp
    have "1 < 1 / a"
      using pos lt by (simp add: field_simps)
    then have h2: "1 \<le> nat \<lfloor>1 / a\<rfloor>"
      by linarith
    show ?thesis
      unfolding in_measure using h1 h2 by (simp only: True c2 if_True if_False; linarith)
  next
    case False
    have "2 \<le> 1 / a"
      using False pos by (simp add: field_simps)
    then have "nat \<lfloor>1 / a / 2\<rfloor> < nat \<lfloor>1 / a\<rfloor>"
      by (rule half)
    moreover have "1 / a / 2 = 1 / (a * 2)"
      by simp
    ultimately have h: "nat \<lfloor>1 / (a * 2)\<rfloor> < nat \<lfloor>1 / a\<rfloor>"
      by (simp only:)
    show ?thesis
      unfolding in_measure using h by (simp only: False c2 if_False; linarith)
  qed
qed

declare floor_log2.simps [simp del]

definition round_half_even :: "rat \<Rightarrow> int" where
  "round_half_even q =
     (let f = \<lfloor>q\<rfloor>; r = q - of_int f
      in if r < 1 / 2 then f else if 1 / 2 < r then f + 1 else if even f then f else f + 1)"

definition round_to_double :: "rat \<Rightarrow> jsnum" where
  "round_to_double x =
     (if x = 0 then Fin 0
      else
        (let a = \<bar>x\<bar>;
             e = max (floor_log2 a) (- 1022);
             ulp = pow2 (e - 52);
             y = of_int (round_half_even (a / ulp)) * ulp
         in if pow2 1024 \<le> y then (if 0 < x then PInf else NInf)
            else Fin (if 0 < x then y else - y)))"

text \<open>A rational is a double when rounding leaves it as it is.\<close>

definition is_double :: "rat \<Rightarrow> bool" where
  "is_double x = (round_to_double x = Fin x)"

definition js_lit :: "rat \<Rightarrow> jsnum" where
  "js_lit q = round_to_double q"

definition double_of :: "rat \<Rightarrow> rat" where
  "double_of q = (case round_to_double q of Fin y \<Rightarrow> y | _ \<Rightarrow> 0)"

fun js_add :: "jsnum \<Rightarrow> jsnum \<Rightarrow> jsnum" where
  "js_add NaN b = NaN"
| "js_add a NaN = NaN"
| "js_add PInf NInf = NaN"
| "js_add NInf PInf = NaN"
| "js_add PInf b = PInf"
| "js_add a PInf = PInf"
| "js_add NInf b = NInf"
| "js_add a NInf = NInf"
| "js_add (Fin a) (Fin b) = round_to_double (a + b)"

fun js_mul :: "jsnum \<Rightarrow> jsnum \<Rightarrow> jsnum" where
  "js_mul NaN b = NaN"
| "js_mul a NaN = NaN"
| "js_mul (Fin a) (Fin b) = round_to_double (a * b)"
| "js_mul (Fin a) PInf = (if a = 0 then NaN else if 0 < a then PInf else NInf)"
| "js_mul (Fin a) NInf = (if a = 0 then NaN else if 0 < a then NInf else PInf)"
| "js_mul PInf (Fin b) = (if b = 0 then NaN else if 0 < b then PInf else NInf)"
| "js_mul NInf (Fin b) = (if b = 0 then NaN else if 0 < b then NInf else PInf)"
| "js_mul PInf PInf = PInf"
| "js_mul NInf NInf = PInf"
| "js_mul PInf NInf = NInf"
| "js_mul NInf PInf = NInf"

section \<open>The rendered markup\<close>

text \<open>
  The site is one client component, \<^verbatim>\<open>src/app/page.tsx\<close> (the TypeScript version,
  lines 335 to 769; the untyped draft above it in the same file is not the page that is
  served). Every component is a function from its props to a JSX tree, so the embedding is a
  function from the props to a value of \<open>node\<close>. A prop value is a \<open>jsval\<close>;
  a handler prop is recorded by the name of the function it refers to. Strings are UTF-8
  byte strings. Presentation-only props (\<^verbatim>\<open>className\<close>, the geometry of the two
  inline icons, \<^verbatim>\<open>ref\<close>) carry no behaviour and are left out of the trees.
\<close>

datatype jsval =
    JNull
  | JBool bool
  | JNum jsnum
  | JStr string
  | JFun string
  | JArr "jsval list"
  | JObj "(string \<times> jsval) list"

datatype node =
    Text string
  | Val jsval
  | El string "(string \<times> jsval) list" "node list"

text \<open>Characters of the source outside ASCII, as their UTF-8 bytes.\<close>

definition nb_hyphen :: string where
  "nb_hyphen = [CHR 0xE2, CHR 0x80, CHR 0x91]"

definition en_dash :: string where
  "en_dash = [CHR 0xE2, CHR 0x80, CHR 0x93]"

definition em_dash :: string where
  "em_dash = [CHR 0xE2, CHR 0x80, CHR 0x94]"

definition right_quote :: string where
  "right_quote = [CHR 0xE2, CHR 0x80, CHR 0x99]"

definition ne_arrow :: string where
  "ne_arrow = [CHR 0xE2, CHR 0x86, CHR 0x97]"

definition check_mark :: string where
  "check_mark = [CHR 0xE2, CHR 0x9C, CHR 0x93]"

definition copyright_sign :: string where
  "copyright_sign = [CHR 0xC2, CHR 0xA9]"

subsection \<open>Reading a tree\<close>

definition attr :: "node \<Rightarrow> string \<Rightarrow> jsval option" where
  "attr n k = (case n of El t ps cs \<Rightarrow> map_of ps k | _ \<Rightarrow> None)"

definition kids :: "node \<Rightarrow> node list" where
  "kids n = (case n of El t ps cs \<Rightarrow> cs | _ \<Rightarrow> [])"

definition tag_of :: "node \<Rightarrow> string" where
  "tag_of n = (case n of El t ps cs \<Rightarrow> t | _ \<Rightarrow> [])"

text \<open>The text of a tree, in document order.\<close>

fun texts :: "node \<Rightarrow> string list" where
  "texts (Text s) = [s]"
| "texts (Val v) = []"
| "texts (El t ps cs) = concat (map texts cs)"

text \<open>Every element of a tree with a given tag, in document order.\<close>

fun find_tag :: "string \<Rightarrow> node \<Rightarrow> node list" where
  "find_tag g (Text s) = []"
| "find_tag g (Val v) = []"
| "find_tag g (El t ps cs) =
     (if t = g then [El t ps cs] else []) @ concat (map (find_tag g) cs)"

text \<open>The values of a string-valued prop, over a whole tree, in document order.\<close>

fun str_attrs :: "string \<Rightarrow> node \<Rightarrow> string list" where
  "str_attrs k (Text s) = []"
| "str_attrs k (Val v) = []"
| "str_attrs k (El t ps cs) =
     (case map_of ps k of Some (JStr s) \<Rightarrow> [s] | _ \<Rightarrow> [])
       @ concat (map (str_attrs k) cs)"

section \<open>3D objects\<close>

record SpinningTetraProps =
  color :: "string option"
  wire :: "bool option"

definition SpinningTetra :: "SpinningTetraProps \<Rightarrow> node" where
  "SpinningTetra props =
     (let color' = (case color props of None \<Rightarrow> ''#ff8a00'' | Some c \<Rightarrow> c);
          wire' = (case wire props of None \<Rightarrow> False | Some w \<Rightarrow> w)
      in El ''group'' []
           [El ''mesh'' [(''castShadow'', JBool True), (''receiveShadow'', JBool True)]
              [El ''tetrahedronGeometry''
                 [(''args'', JArr [JNum (js_lit 1.3), JNum (js_lit 0)])] [],
               (if wire'
                then El ''meshBasicMaterial''
                       [(''wireframe'', JBool True), (''color'', JStr color')] []
                else El ''meshStandardMaterial''
                       [(''color'', JStr color'), (''metalness'', JNum (js_lit 0.3)),
                        (''roughness'', JNum (js_lit 0.4))] [])]])"

definition FloatingKnot :: node where
  "FloatingKnot =
     El ''Float''
       [(''speed'', JNum (js_lit 1.2)), (''rotationIntensity'', JNum (js_lit 0.4)),
        (''floatIntensity'', JNum (js_lit 0.8))]
       [El ''mesh'' [(''castShadow'', JBool True), (''receiveShadow'', JBool True)]
          [El ''torusKnotGeometry''
             [(''args'',
               JArr [JNum (js_lit 0.8), JNum (js_lit 0.26), JNum (js_lit 240),
                     JNum (js_lit 16)])] [],
           El ''meshStandardMaterial''
             [(''color'', JStr ''#60a5fa''), (''metalness'', JNum (js_lit 0.65)),
              (''roughness'', JNum (js_lit 0.2))] []]]"

record GlowProps =
  glow_color :: "string option"
  intensity :: "jsnum option"

definition Glow :: "GlowProps \<Rightarrow> node" where
  "Glow props =
     (let color' = (case glow_color props of None \<Rightarrow> ''#f59e0b'' | Some c \<Rightarrow> c);
          intensity' = (case intensity props of None \<Rightarrow> js_lit 2 | Some i \<Rightarrow> i)
      in El ''group'' []
           [El ''pointLight''
              [(''position'', JArr [JNum (js_lit 2), JNum (js_lit 2), JNum (js_lit 2)]),
               (''intensity'', JNum intensity'), (''color'', JStr color')] [],
            El ''pointLight''
              [(''position'',
                JArr [JNum (js_lit (- 2)), JNum (js_lit (- 2)), JNum (js_lit (- 2))]),
               (''intensity'', JNum (js_mul intensity' (js_lit 0.7))),
               (''color'', JStr ''#60a5fa'')] [],
            El ''ambientLight'' [(''intensity'', JNum (js_lit 0.35))] []])"

definition SceneBadge :: node where
  "SceneBadge =
     El ''Html''
       [(''position'', JArr [JNum (js_lit 0), JNum (js_lit (- 1.9)), JNum (js_lit 0)]),
        (''center'', JBool True)]
       [El ''div'' [] [Text ''Interactive Portfolio'']]"

definition PortfolioScene :: node where
  "PortfolioScene =
     El ''group'' []
       [Glow \<lparr>glow_color = None, intensity = None\<rparr>,
        El ''Stars''
          [(''radius'', JNum (js_lit 90)), (''depth'', JNum (js_lit 45)),
           (''count'', JNum (js_lit 2200)), (''factor'', JNum (js_lit 4)),
           (''fade'', JBool True), (''speed'', JNum (js_lit 0.5))] [],
        FloatingKnot,
        El ''group''
          [(''position'', JArr [JNum (js_lit 2.2), JNum (js_lit 0.2), JNum (js_lit (- 0.6))])]
          [SpinningTetra \<lparr>color = Some ''#22d3ee'', wire = None\<rparr>],
        El ''group''
          [(''position'',
            JArr [JNum (js_lit (- 2.4)), JNum (js_lit (- 0.1)), JNum (js_lit 0.6)])]
          [SpinningTetra \<lparr>color = Some ''#f59e0b'', wire = Some True\<rparr>],
        SceneBadge,
        El ''OrbitControls''
          [(''enablePan'', JBool False), (''maxDistance'', JNum (js_lit 8)),
           (''minDistance'', JNum (js_lit 3))] []]"

subsection \<open>The per-frame updates\<close>

text \<open>
  The callbacks that \<open>SpinningTetra\<close> and \<open>FloatingKnot\<close> register with
  \<^verbatim>\<open>useFrame\<close>. Each is called once per rendered frame with \<open>delta\<close>, the seconds since
  the previous frame, and updates the Euler angles of the object its \<^verbatim>\<open>ref\<close> holds:
  \<^verbatim>\<open>rotation.x += delta * 0.3\<close> is the sum of the angle and the product, each rounded.
  \<open>frames\<close> runs a callback over the deltas of successive frames.
\<close>

record rotation =
  rot_x :: jsnum
  rot_y :: jsnum
  rot_z :: jsnum

definition SpinningTetra_useFrame :: "jsnum \<Rightarrow> rotation \<Rightarrow> rotation" where
  "SpinningTetra_useFrame delta r =
     (let r1 = r\<lparr>rot_x := js_add (rot_x r) (js_mul delta (js_lit 0.3))\<rparr>
      in r1\<lparr>rot_y := js_add (rot_y r1) (js_mul delta (js_lit 0.5))\<rparr>)"

definition FloatingKnot_useFrame :: "jsnum \<Rightarrow> rotation \<Rightarrow> rotation" where
  "FloatingKnot_useFrame delta r =
     (let r1 = r\<lparr>rot_x := js_add (rot_x r) (js_mul delta (js_lit 0.25))\<rparr>
      in r1\<lparr>rot_z := js_add (rot_z r1) (js_mul delta (js_lit 0.15))\<rparr>)"

fun frames :: "(jsnum \<Rightarrow> rotation \<Rightarrow> rotation) \<Rightarrow> jsnum list \<Rightarrow> rotation \<Rightarrow> rotation" where
  "frames f [] r = r"
| "frames f (d # ds) r = frames f ds (f d r)"

text \<open>
  The frames a clock produces, for an angle that starts at \<open>a\<close> and turns at the rate
  \<open>c\<close>: the angle starts non-negative, no delta is negative, there are fewer than
  \<open>2 ^ 52\<close> frames, and the angle the frames add up to stays below \<open>pow2 1000\<close>, far from
  overflow. (At 60 frames a second \<open>2 ^ 52\<close> frames take more than two million years.)
\<close>

definition ordinary_frames :: "rat \<Rightarrow> rat \<Rightarrow> rat list \<Rightarrow> bool" where
  "ordinary_frames c a ds =
     (0 \<le> a \<and> list_all (\<lambda>d. 0 \<le> d) ds \<and> length ds < 2 ^ 52
      \<and> a + c * sum_list ds \<le> pow2 1000)"

text \<open>
  How far the roundings of \<open>n\<close> frames can take an angle from the unrounded angle \<open>s\<close>:
  each frame rounds a product and a sum, each by at most half a unit in the last place
  (a relative \<open>pow2 (- 53)\<close>, or \<open>pow2 (- 1075)\<close> among the subnormal numbers).
\<close>

definition rotation_tolerance :: "nat \<Rightarrow> rat \<Rightarrow> rat" where
  "rotation_tolerance n s = of_nat (n + 1) * (pow2 (- 52) * s + pow2 (- 1073))"

section \<open>UI blocks\<close>

text \<open>
  \<open>Section\<close>: the props \<open>title\<close> and \<open>kicker\<close> are React nodes, \<open>children\<close> the
  nodes between the tags.
\<close>

definition Section :: "string \<Rightarrow> node \<Rightarrow> node \<Rightarrow> node list \<Rightarrow> node" where
  "Section id' title' kicker children =
     El ''section'' [(''id'', JStr id')]
       [El ''motion.h2''
          [(''initial'', JObj [(''opacity'', JNum (js_lit 0)), (''y'', JNum (js_lit 12))]),
           (''whileInView'', JObj [(''opacity'', JNum (js_lit 1)), (''y'', JNum (js_lit 0))]),
           (''viewport'', JObj [(''once'', JBool True)]),
           (''transition'', JObj [(''duration'', JNum (js_lit 0.6))])]
          [El ''span'' [] [kicker], title'],
        El ''motion.div''
          [(''initial'', JObj [(''opacity'', JNum (js_lit 0)), (''y'', JNum (js_lit 12))]),
           (''whileInView'', JObj [(''opacity'', JNum (js_lit 1)), (''y'', JNum (js_lit 0))]),
           (''viewport'', JObj [(''once'', JBool True)]),
           (''transition'',
            JObj [(''duration'', JNum (js_lit 0.6)), (''delay'', JNum (js_lit 0.1))])]
          children]"

record ProjectCardProps =
  title :: string
  description :: string
  tags :: "string list option"
  href :: "string option"

text \<open>
  \<open>ProjectCard\<close>: an omitted \<open>tags\<close> or \<open>href\<close> (\<open>None\<close>) takes the default of the
  parameter list, \<^verbatim>\<open>tags = []\<close> and \<^verbatim>\<open>href = "#"\<close>.
\<close>

definition ProjectCard :: "ProjectCardProps \<Rightarrow> node" where
  "ProjectCard props =
     (let tags' = (case tags props of None \<Rightarrow> [] | Some ts \<Rightarrow> ts);
          href' = (case href props of None \<Rightarrow> ''#'' | Some h \<Rightarrow> h)
      in El ''motion.a''
           [(''href'', JStr href'), (''target'', JStr ''_blank''),
            (''rel'', JStr ''noreferrer''),
            (''initial'', JObj [(''opacity'', JNum (js_lit 0)), (''y'', JNum (js_lit 16))]),
            (''whileInView'', JObj [(''opacity'', JNum (js_lit 1)), (''y'', JNum (js_lit 0))]),
            (''viewport'', JObj [(''once'', JBool True)]),
            (''transition'', JObj [(''duration'', JNum (js_lit 0.5))])]
           [El ''div'' []
              [El ''div'' []
                 [El ''h3'' [] [Text (title props)], El ''span'' [] [Text ne_arrow]],
               El ''p'' [] [Text (description props)],
               El ''div'' []
                 (map (\<lambda>t. El ''span'' [(''key'', JStr t)] [Text t]) tags')]])"

section \<open>The contact form\<close>

text \<open>
  The component's state is the one cell of \<^verbatim>\<open>useState(false)\<close>. A submit event carries
  the values of the form's controls (reachable from the handler through the event's target)
  and its \<open>defaultPrevented\<close> flag, which \<^verbatim>\<open>preventDefault()\<close> sets.
\<close>

record ContactForm_state =
  sent :: bool

record submit_event =
  target_values :: "string list"
  defaultPrevented :: bool

definition ContactForm_init :: ContactForm_state where
  "ContactForm_init = \<lparr>sent = False\<rparr>"

definition setSent :: "bool \<Rightarrow> ContactForm_state \<Rightarrow> ContactForm_state" where
  "setSent b st = st\<lparr>sent := b\<rparr>"

definition preventDefault :: "submit_event \<Rightarrow> submit_event" where
  "preventDefault e = e\<lparr>defaultPrevented := True\<rparr>"

definition onSubmit :: "submit_event \<Rightarrow> ContactForm_state \<Rightarrow> submit_event \<times> ContactForm_state" where
  "onSubmit e st = (preventDefault e, setSent True st)"

text \<open>The state after a sequence of submit events has reached the handler.\<close>

fun submits :: "submit_event list \<Rightarrow> ContactForm_state \<Rightarrow> ContactForm_state" where
  "submits [] st = st"
| "submits (e # es) st = submits es (snd (onSubmit e st))"

definition ContactForm :: "ContactForm_state \<Rightarrow> node" where
  "ContactForm st =
     El ''form'' [(''onSubmit'', JFun ''onSubmit'')]
       [El ''input'' [(''placeholder'', JStr ''Full name''), (''required'', JBool True)] [],
        El ''input''
          [(''placeholder'', JStr ''Email''), (''type'', JStr ''email''),
           (''required'', JBool True)] [],
        El ''input'' [(''placeholder'', JStr ''Subject'')] [],
        El ''textarea'' [(''placeholder'', JStr ''Message''), (''required'', JBool True)] [],
        El ''button'' [(''type'', JStr ''submit'')]
          [Text (if sent st then ''Sent '' @ check_mark else ''Send message'')]]"

text \<open>
  The constraints a control of the form declares in its markup: whether it is
  \<^verbatim>\<open>required\<close>, and its \<^verbatim>\<open>type\<close>.
\<close>

definition is_control :: "node \<Rightarrow> bool" where
  "is_control n = (tag_of n = ''input'' \<or> tag_of n = ''textarea'')"

definition form_controls :: "node \<Rightarrow> node list" where
  "form_controls form = filter is_control (kids form)"

definition is_required :: "node \<Rightarrow> bool" where
  "is_required n = (attr n ''required'' = Some (JBool True))"

definition control_type :: "node \<Rightarrow> string option" where
  "control_type n = (case attr n ''type'' of Some (JStr s) \<Rightarrow> Some s | _ \<Rightarrow> None)"

section \<open>Top-level app\<close>

record nav_link =
  link_href :: string
  link_label :: string

definition links :: "nav_link list" where
  "links =
     [\<lparr>link_href = ''#about'', link_label = ''About''\<rparr>,
      \<lparr>link_href = ''#projects'', link_label = ''Projects''\<rparr>,
      \<lparr>link_href = ''#skills'', link_label = ''Skills''\<rparr>,
      \<lparr>link_href = ''#contact'', link_label = ''Contact''\<rparr>]"

text \<open>
  The bar of \<open>Navbar\<close>, for any list in the place of the component's local
  \<^verbatim>\<open>links\<close>; \<open>Navbar\<close> is the bar of the list the component declares.
\<close>

definition navbar_list :: "nav_link list \<Rightarrow> node" where
  "navbar_list ls =
     El ''div'' []
       [El ''nav'' []
          [El ''ul'' []
             (El ''li'' [] [Text ''Sneh'']
              # map (\<lambda>l. El ''li'' [(''key'', JStr (link_href l))]
                           [El ''a'' [(''href'', JStr (link_href l))] [Text (link_label l)]])
                  ls)]]"

definition Navbar :: node where
  "Navbar = navbar_list links"

definition Hero :: node where
  "Hero =
     El ''div'' []
       [El ''div'' []
          [El ''Canvas''
             [(''shadows'', JBool True),
              (''camera'',
               JObj [(''position'', JArr [JNum (js_lit 0), JNum (js_lit 1.2), JNum (js_lit 5.5)]),
                     (''fov'', JNum (js_lit 42))])]
             [El ''Suspense'' [(''fallback'', JNull)] [PortfolioScene]]],
        El ''div'' []
          [El ''div'' []
             [El ''motion.h1''
                [(''initial'', JObj [(''opacity'', JNum (js_lit 0)), (''y'', JNum (js_lit 12))]),
                 (''animate'', JObj [(''opacity'', JNum (js_lit 1)), (''y'', JNum (js_lit 0))]),
                 (''transition'', JObj [(''duration'', JNum (js_lit 0.7))])]
                [El ''span'' [] [Text ''Sneh Italiya'']],
              El ''motion.p''
                [(''initial'', JObj [(''opacity'', JNum (js_lit 0)), (''y'', JNum (js_lit 12))]),
                 (''animate'', JObj [(''opacity'', JNum (js_lit 1)), (''y'', JNum (js_lit 0))]),
                 (''transition'',
                  JObj [(''duration'', JNum (js_lit 0.8)), (''delay'', JNum (js_lit 0.08))])]
                [Text (''Full'' @ nb_hyphen
                       @ ''stack developer crafting delightful, performant experiences. ''
                       @ ''Focused on React, Next.js, Node, and 3D web.'')],
              El ''motion.div''
                [(''initial'', JObj [(''opacity'', JNum (js_lit 0)), (''y'', JNum (js_lit 12))]),
                 (''animate'', JObj [(''opacity'', JNum (js_lit 1)), (''y'', JNum (js_lit 0))]),
                 (''transition'',
                  JObj [(''duration'', JNum (js_lit 0.8)), (''delay'', JNum (js_lit 0.16))])]
                [El ''a'' [(''href'', JStr ''#projects'')] [Text ''View Projects''],
                 El ''a'' [(''href'', JStr ''#contact'')] [Text ''Contact'']],
              El ''div'' []
                [El ''a'' [(''href'', JStr ''#''), (''aria-label'', JStr ''GitHub'')]
                   [El ''svg'' [] [El ''path'' [] []]],
                 El ''a'' [(''href'', JStr ''#''), (''aria-label'', JStr ''LinkedIn'')]
                   [El ''svg'' [] [El ''path'' [] []]],
                 El ''span'' [] [El ''span'' [] [], Text ''Scroll'']]]],
        El ''div'' [] []]"

definition skills :: "string list" where
  "skills =
     [''React/Next.js'', ''Node.js'', ''TypeScript'', ''Tailwind CSS'', ''React Three Fiber'',
      ''PostgreSQL/MySQL'', ''Redis'', ''Docker'', ''CI/CD'']"

text \<open>
  The grid of \<open>Skills\<close>, for any list in the place of the component's local
  \<^verbatim>\<open>skills\<close>; \<open>Skills\<close> is the grid of the list the component declares.
\<close>

definition skills_grid :: "string list \<Rightarrow> node" where
  "skills_grid ss = El ''div'' [] (map (\<lambda>s. El ''div'' [(''key'', JStr s)] [Text s]) ss)"

definition Skills :: node where
  "Skills = skills_grid skills"

record role =
  role_period :: string
  role_title :: string
  role_org :: string
  role_orgLink :: string
  role_points :: "string list"

definition roles :: "role list" where
  "roles =
     [\<lparr>role_period = ''2024 '' @ em_dash @ '' Present'',
       role_title = ''Full'' @ nb_hyphen @ ''stack Engineer'',
       role_org = ''Freelance'',
       role_orgLink = ''https://snehitaliya.dev'',
       role_points = [''Shipped performant Next.js apps'', ''Built 3D interfaces with R3F'']\<rparr>,
      \<lparr>role_period = ''2023 '' @ em_dash @ '' 2024'',
       role_title = ''Frontend Developer'',
       role_org = ''Product Studio'',
       role_orgLink = ''#'',
       role_points = [''Component libraries & design systems'', ''Accessibility & performance'']\<rparr>]"

text \<open>
  The timeline of \<open>Experience\<close>, for any list in the place of the component's local
  \<^verbatim>\<open>roles\<close>; \<open>Experience\<close> is the timeline of the list the component declares.
\<close>

definition experience_timeline :: "role list \<Rightarrow> node" where
  "experience_timeline rs =
     El ''div'' []
       [El ''div'' [] [],
        El ''div'' []
          (map (\<lambda>r. El ''div'' [(''key'', JStr (role_title r))]
                     [El ''div'' [] [],
                      El ''div'' []
                        [El ''div'' []
                           [El ''span'' [] [Text (role_period r)],
                            El ''a''
                              [(''href'', JStr (role_orgLink r)), (''target'', JStr ''_blank''),
                               (''rel'', JStr ''noopener noreferrer'')]
                              [Text (role_org r)]],
                         El ''h3'' [] [Text (role_title r)],
                         El ''ul'' []
                           (map (\<lambda>p. El ''li'' [(''key'', JStr p)] [Text p]) (role_points r))]])
             rs)]"

definition Experience :: node where
  "Experience = experience_timeline roles"

text \<open>
  An element of the \<^verbatim>\<open>projects\<close> array; the spread \<^verbatim>\<open>{...p}\<close> passes its four
  fields to \<open>ProjectCard\<close>, each of them present.
\<close>

record project =
  project_title :: string
  project_description :: string
  project_tags :: "string list"
  project_href :: string

definition spread :: "project \<Rightarrow> ProjectCardProps" where
  "spread p =
     \<lparr>title = project_title p, description = project_description p,
      tags = Some (project_tags p), href = Some (project_href p)\<rparr>"

definition projects :: "project list" where
  "projects =
     [\<lparr>project_title = ''AI Worksheet Pro'',
       project_description =
         ''Multi'' @ nb_hyphen @ ''curriculum generator with quizzes, vocabulary, and export workflows.'',
       project_tags = [''React'', ''Node'', ''MySQL'', ''RAG''],
       project_href = ''https://aiworksheetpro.com''\<rparr>,
      \<lparr>project_title = ''Gems Global Jewels'',
       project_description =
         ''Jewellery admin portal with dynamic SKUs, Cloudinary media, and Redis caching.'',
       project_tags = [''React'', ''Express'', ''Redis'', ''Cloudinary''],
       project_href = ''https://gemsglobaljewels.com''\<rparr>,
      \<lparr>project_title = ''ETL '' @ en_dash @ '' Pet Rescue Charity'',
       project_description =
         ''Talend pipelines to Oracle star schema; analytics and dashboards.'',
       project_tags = [''Talend'', ''Oracle'', ''SQL''],
       project_href = ''#''\<rparr>,
      \<lparr>project_title = ''Realtime Dashboard'',
       project_description = ''WebSocket powered metrics with streaming charts and auth.'',
       project_tags = [''Next.js'', ''WebSocket'', ''Redis''],
       project_href = ''#''\<rparr>]"

text \<open>
  The grid of the Projects section (lines 737 to 747), for any array in the place of
  \<^verbatim>\<open>projects\<close>.
\<close>

definition projects_grid :: "project list \<Rightarrow> node" where
  "projects_grid ps =
     El ''div'' []
       (map (\<lambda>p. El ''motion.div''
                    [(''key'', JStr (project_title p)),
                     (''whileHover'',
                      JObj [(''y'', JNum (js_lit (- 4))), (''rotateX'', JNum (js_lit 1.5)),
                            (''rotateY'', JNum (js_lit (- 1.5)))]),
                     (''transition'',
                      JObj [(''type'', JStr ''spring''), (''stiffness'', JNum (js_lit 300)),
                            (''damping'', JNum (js_lit 22))])]
                    [ProjectCard (spread p)])
          ps)"

text \<open>
  The page. \<open>year\<close> is what \<^verbatim>\<open>new Date().getFullYear()\<close> returns when the footer is
  rendered; \<open>st\<close> is the state of the contact form at that render.
\<close>

definition Portfolio3DApp :: "int \<Rightarrow> ContactForm_state \<Rightarrow> node" where
  "Portfolio3DApp year st =
     El ''main'' []
       [Navbar,
        Hero,
        Section ''about'' (Text ''About'') (Text ''Introduction'')
          [El ''div'' []
             [El ''p'' []
                [Text (''Builder who loves shipping polished interfaces and solving hard problems ''
                       @ ''end'' @ nb_hyphen @ ''to'' @ nb_hyphen @ ''end. ''
                       @ ''Obsessed with performance, accessibility, and developer ergonomics. ''
                       @ ''Comfortable across the stack from UX to infra.'')],
              El ''div'' []
                [El ''div'' [] [El ''div'' [] [Text ''5+''], El ''div'' [] [Text ''Projects'']],
                 El ''div'' [] [El ''div'' [] [Text ''3D''], El ''div'' [] [Text ''R3F'']],
                 El ''div'' [] [El ''div'' [] [Text ''A11y''], El ''div'' [] [Text ''First'']]]]],
        Section ''projects'' (Text ''Projects'') (Text ''Work'') [projects_grid projects],
        Section ''skills'' (Text ''Skills'') (Text ''Toolkit'') [Skills],
        Section ''experience'' (Text ''Experience'') (Text ''Timeline'') [Experience],
        Section ''contact'' (Text ''Contact'') (Text (''Let'' @ right_quote @ ''s build''))
          [ContactForm st],
        El ''div'' [] [],
        El ''footer'' []
          [El ''span'' []
             [Text (copyright_sign @ '' ''), Val (JNum (js_lit (of_int year))),
              Text '' Sneh Italiya''],
           El ''a''
             [(''href'', JStr ''/resume.pdf''), (''target'', JStr ''_blank''),
              (''rel'', JStr ''noopener noreferrer'')]
             [Text ''view resume'']]]"

text \<open>What a reader of the page sees of one card of the gallery.\<close>

definition card_of :: "node \<Rightarrow> node" where
  "card_of cell = (case kids cell of [c] \<Rightarrow> c | _ \<Rightarrow> cell)"

definition card_title :: "node \<Rightarrow> string list" where
  "card_title c = concat (map texts (find_tag ''h3'' c))"

definition card_description :: "node \<Rightarrow> string list" where
  "card_description c = concat (map texts (find_tag ''p'' c))"

definition card_pills :: "node \<Rightarrow> node list" where
  "card_pills c =
     (case kids c of
        [body] \<Rightarrow> (case kids body of [heading, par, pills] \<Rightarrow> kids pills | _ \<Rightarrow> [])
      | _ \<Rightarrow> [])"

definition card_tags :: "node \<Rightarrow> string list" where
  "card_tags c = concat (map texts (card_pills c))"

definition card_href :: "node \<Rightarrow> jsval option" where
  "card_href c = attr c ''href''"

text \<open>
  What a reader finds on a rendered page. The content of the section with a given id is
  the children of the section's second block (the first is its heading); sections are
  children of the page. The cells of the gallery and the entries of the skills grid are
  the children of the grid in the section; the entries of the timeline are the children
  of the second block of the timeline (the first is its line); the points of an entry are
  the texts of its list items; the links of the navigation are the anchors inside
  \<^verbatim>\<open>nav\<close> elements.
\<close>

definition section_content :: "string \<Rightarrow> node \<Rightarrow> node list" where
  "section_content i page =
     concat (map (\<lambda>s. case kids s of [heading, body] \<Rightarrow> kids body | _ \<Rightarrow> [])
               (filter (\<lambda>n. tag_of n = ''section'' \<and> attr n ''id'' = Some (JStr i))
                  (kids page)))"

definition gallery_cells :: "node \<Rightarrow> node list" where
  "gallery_cells page = concat (map kids (section_content ''projects'' page))"

definition skill_entries :: "node \<Rightarrow> node list" where
  "skill_entries page = concat (map kids (section_content ''skills'' page))"

definition timeline_items :: "node \<Rightarrow> node list" where
  "timeline_items t = (case kids t of [line, entries] \<Rightarrow> kids entries | _ \<Rightarrow> [])"

definition timeline_entries :: "node \<Rightarrow> node list" where
  "timeline_entries page = concat (map timeline_items (section_content ''experience'' page))"

definition entry_points :: "node \<Rightarrow> string list" where
  "entry_points e = concat (map texts (find_tag ''li'' e))"

definition nav_anchors :: "node \<Rightarrow> node list" where
  "nav_anchors page = concat (map (find_tag ''a'') (find_tag ''nav'' page))"

section \<open>The services the page is built on\<close>

text \<open>
  The browser, the animation library and the orbit controller are not code of the
  repository: the page only configures them through the props above. Each is modelled
  here as far as the specification describes it, and reads its configuration from the trees
  the components return, so that a property proved with it depends on the props the source
  passes.
\<close>

subsection \<open>Submitting the form in a browser\<close>

text \<open>
  Modelled from the spec: the browser's handling of a submit action is missing from the
  sources. Section 7 has it that on a validation failure (an empty required field, a
  malformed email) the submission is blocked and \<open>sent\<close> is not changed; section 4.5 has
  the email "match a well-formed email pattern". A control is valid when it is not both
  required and empty and, if its type is email and it is filled, its value is well formed;
  what counts as well formed is the browser's and is a parameter. Only a form whose
  controls are all valid has its submit event delivered to the handler.
\<close>

definition control_valid :: "(string \<Rightarrow> bool) \<Rightarrow> node \<Rightarrow> string \<Rightarrow> bool" where
  "control_valid well_formed ctl v =
     (\<not> (is_required ctl \<and> v = [])
      \<and> \<not> (control_type ctl = Some ''email'' \<and> v \<noteq> [] \<and> \<not> well_formed v))"

definition browser_submit ::
  "(string \<Rightarrow> bool) \<Rightarrow> string list \<Rightarrow> ContactForm_state \<Rightarrow> ContactForm_state" where
  "browser_submit well_formed vs st =
     (if list_all2 (control_valid well_formed) (form_controls (ContactForm st)) vs
      then snd (onSubmit \<lparr>target_values = vs, defaultPrevented = False\<rparr> st)
      else st)"

subsection \<open>Entrance animations\<close>

text \<open>
  Modelled from the spec: the animation library is missing from the sources. Sections 4.3
  and 6 describe a scroll-triggered entrance animation that takes a block from its resting
  state (\<^verbatim>\<open>initial\<close>) to its visible state (\<^verbatim>\<open>whileInView\<close>) when the block enters the
  viewport, and whose viewport detection, when the block asks for \<^verbatim>\<open>once\<close>, does not fire
  again on scroll-out and scroll-in. \<open>plays\<close> counts the transitions triggered. Without
  \<^verbatim>\<open>once\<close> the block goes back to its resting state when it leaves the viewport and the
  transition plays again at the next entry.
\<close>

datatype viewport_event = EnterViewport | LeaveViewport

record inview_state =
  pose :: "jsval option"
  plays :: nat
  in_view :: bool
  observing :: bool

definition viewport_once :: "node \<Rightarrow> bool" where
  "viewport_once n =
     (case attr n ''viewport'' of
        Some (JObj kv) \<Rightarrow> map_of kv ''once'' = Some (JBool True)
      | _ \<Rightarrow> False)"

definition inview_mount :: "node \<Rightarrow> inview_state" where
  "inview_mount n =
     \<lparr>pose = attr n ''initial'', plays = 0, in_view = False,
      observing = (attr n ''whileInView'' \<noteq> None)\<rparr>"

definition inview_step :: "node \<Rightarrow> viewport_event \<Rightarrow> inview_state \<Rightarrow> inview_state" where
  "inview_step n ev s =
     (if \<not> observing s then s
      else case ev of
        EnterViewport \<Rightarrow>
          (if in_view s then s
           else s\<lparr>pose := attr n ''whileInView'', plays := plays s + 1, in_view := True,
                  observing := \<not> viewport_once n\<rparr>)
      | LeaveViewport \<Rightarrow>
          (if in_view s then s\<lparr>pose := attr n ''initial'', in_view := False\<rparr> else s))"

fun inview_run :: "node \<Rightarrow> viewport_event list \<Rightarrow> inview_state \<Rightarrow> inview_state" where
  "inview_run n [] s = s"
| "inview_run n (ev # evs) s = inview_run n evs (inview_step n ev s)"

subsection \<open>The orbit controller\<close>

text \<open>
  Modelled from the spec: the orbit controller is missing from the sources. Section 4.4
  describes a camera that the user turns about a focal point by dragging, "with panning
  disabled and zoom distance clamped to a fixed near/far range". The controller keeps the
  camera's distance from its target and two angles; a zoom scales the distance and clamps
  it between \<^verbatim>\<open>minDistance\<close> and \<^verbatim>\<open>maxDistance\<close>; a pan moves the target, and the
  camera with it, only when \<^verbatim>\<open>enablePan\<close> is not false. The controller clamps the
  distance once when it is created.
\<close>

record orbit_config =
  enablePan :: bool
  minDistance :: real
  maxDistance :: "real option"

definition orbit_config_of :: "node \<Rightarrow> orbit_config" where
  "orbit_config_of n =
     \<lparr>enablePan = (attr n ''enablePan'' \<noteq> Some (JBool False)),
      minDistance = (case attr n ''minDistance'' of Some (JNum (Fin x)) \<Rightarrow> of_rat x | _ \<Rightarrow> 0),
      maxDistance = (case attr n ''maxDistance'' of
           Some (JNum (Fin x)) \<Rightarrow> Some (of_rat x)
         | _ \<Rightarrow> None)\<rparr>"

record orbit_state =
  distance :: real
  azimuth :: real
  polar :: real
  target :: "real \<times> real \<times> real"

datatype orbit_input = Rotate real real | Dolly real | Pan real real real

definition clamp_distance :: "orbit_config \<Rightarrow> real \<Rightarrow> real" where
  "clamp_distance cfg r =
     max (minDistance cfg) (case maxDistance cfg of None \<Rightarrow> r | Some m \<Rightarrow> min m r)"

definition orbit_update :: "orbit_config \<Rightarrow> orbit_input \<Rightarrow> orbit_state \<Rightarrow> orbit_state" where
  "orbit_update cfg inp s =
     (case inp of
        Rotate da dp \<Rightarrow> s\<lparr>azimuth := azimuth s + da, polar := polar s + dp\<rparr>
      | Dolly k \<Rightarrow> s\<lparr>distance := clamp_distance cfg (distance s * k)\<rparr>
      | Pan dx dy dz \<Rightarrow>
          (if enablePan cfg
           then (case target s of (x, y, z) \<Rightarrow> s\<lparr>target := (x + dx, y + dy, z + dz)\<rparr>)
           else s))"

fun orbit_run :: "orbit_config \<Rightarrow> orbit_input list \<Rightarrow> orbit_state \<Rightarrow> orbit_state" where
  "orbit_run cfg [] s = s"
| "orbit_run cfg (inp # inps) s = orbit_run cfg inps (orbit_update cfg inp s)"

definition camera_position :: "orbit_state \<Rightarrow> real \<times> real \<times> real" where
  "camera_position s =
     (case target s of (x, y, z) \<Rightarrow>
        (x + distance s * sin (polar s) * sin (azimuth s),
         y + distance s * cos (polar s),
         z + distance s * sin (polar s) * cos (azimuth s)))"

text \<open>
  The controller of the hero scene: its configuration is the props of the
  \<^verbatim>\<open>OrbitControls\<close> element of \<open>PortfolioScene\<close>, its camera starts where the
  \<^verbatim>\<open>camera\<close> prop of the \<^verbatim>\<open>Canvas\<close> of \<open>Hero\<close> puts it, looking at the origin.
\<close>

definition scene_orbit_config :: orbit_config where
  "scene_orbit_config =
     (case find_tag ''OrbitControls'' PortfolioScene of
        [n] \<Rightarrow> orbit_config_of n
      | _ \<Rightarrow> orbit_config_of (Text []))"

definition hero_camera_position :: "real \<times> real \<times> real" where
  "hero_camera_position =
     (case find_tag ''Canvas'' Hero of
        [n] \<Rightarrow>
          (case attr n ''camera'' of
             Some (JObj kv) \<Rightarrow>
               (case map_of kv ''position'' of
                  Some (JArr [JNum (Fin x), JNum (Fin y), JNum (Fin z)]) \<Rightarrow>
                    (of_rat x, of_rat y, of_rat z)
                | _ \<Rightarrow> (0, 0, 5))
           | _ \<Rightarrow> (0, 0, 5))
      | _ \<Rightarrow> (0, 0, 5))"

definition orbit_create :: "orbit_config \<Rightarrow> real \<times> real \<times> real \<Rightarrow> orbit_state" where
  "orbit_create cfg p =
     (case p of (x, y, z) \<Rightarrow>
        (let r = sqrt (x\<^sup>2 + y\<^sup>2 + z\<^sup>2)
         in \<lparr>distance = clamp_distance cfg r, azimuth = Arg (Complex z x),
             polar = arccos (y / r), target = (0, 0, 0)\<rparr>))"

definition scene_orbit_init :: orbit_state where
  "scene_orbit_init = orbit_create scene_orbit_config hero_camera_position"

section \<open>Properties of the numbers\<close>

text \<open>
  \<open>floor_log2\<close> is the exponent it is meant to be, and the only one; with it a rounding is
  evaluated from the exponent of its argument.
\<close>

lemma floor_rat_numeral [simp]:
  "\<lfloor>numeral a / numeral b :: rat\<rfloor> = numeral a div numeral b"
  using floor_divide_of_int_eq [of "numeral a" "numeral b", where ?'a = rat] by simp

lemma floor_rat_one_numeral [simp]:
  "\<lfloor>1 / numeral b :: rat\<rfloor> = 1 div numeral b"
  using floor_divide_of_int_eq [of 1 "numeral b", where ?'a = rat] by simp

lemma pow2_powi: "pow2 k = 2 powi k"
proof (cases "0 \<le> k")
  case True
  then show ?thesis by (simp add: pow2_def power_int_def)
next
  case False
  have "(1::rat) / 2 ^ nat (- k) = inverse 2 ^ nat (- k)"
    by (simp only: inverse_eq_divide power_one_over)
  with False show ?thesis by (simp only: pow2_def power_int_def if_False)
qed

lemma pow2_less_imp: "pow2 x < pow2 y \<Longrightarrow> x < y"
proof (rule ccontr)
  assume lt: "pow2 x < pow2 y" and "\<not> x < y"
  then have "y \<le> x" by simp
  then have "pow2 y \<le> pow2 x"
    unfolding pow2_powi by (intro power_int_increasing) simp_all
  with lt show False by simp
qed

lemma pow2_pos: "0 < pow2 k"
  by (simp add: pow2_def)

lemma pow2_add1: "pow2 (k + 1) = 2 * pow2 k"
  unfolding pow2_powi by (rule power_int_add_1') simp

lemma pow2_sub1: "pow2 (k - 1) = pow2 k / 2"
  using pow2_add1 [of "k - 1"] by simp

lemma floor_log2_bounds:
  "0 < a \<Longrightarrow> pow2 (floor_log2 a) \<le> a \<and> a < pow2 (floor_log2 a + 1)"
proof (induction a rule: floor_log2.induct)
  case (1 a)
  show ?case
  proof (cases "2 \<le> a")
    case True
    then have e: "floor_log2 a = floor_log2 (a / 2) + 1"
      by (subst floor_log2.simps) simp
    from True "1.prems"
    have "pow2 (floor_log2 (a / 2)) \<le> a / 2 \<and> a / 2 < pow2 (floor_log2 (a / 2) + 1)"
      by (intro "1.IH"(1)) simp_all
    then show ?thesis
      unfolding e pow2_add1 by simp
  next
    case False
    show ?thesis
    proof (cases "a < 1")
      case True
      with False "1.prems" have e: "floor_log2 a = floor_log2 (a * 2) - 1"
        by (subst floor_log2.simps) simp
      from True False "1.prems"
      have "pow2 (floor_log2 (a * 2)) \<le> a * 2 \<and> a * 2 < pow2 (floor_log2 (a * 2) + 1)"
        by (intro "1.IH"(2)) simp_all
      then show ?thesis
        unfolding e pow2_add1 by (simp add: pow2_sub1)
    next
      case ge: False
      with False "1.prems" have e: "floor_log2 a = 0"
        by (subst floor_log2.simps) simp
      from ge False show ?thesis
        unfolding e by (simp add: pow2_def)
    qed
  qed
qed

lemma floor_log2_unique:
  assumes "pow2 e \<le> a" and "a < pow2 (e + 1)"
  shows "floor_log2 a = e"
proof -
  have pos: "0 < a"
    using assms(1) pow2_pos [of e] by simp
  note b = floor_log2_bounds [OF pos]
  have "pow2 (floor_log2 a) < pow2 (e + 1)"
    using b assms(2) by simp
  then have 1: "floor_log2 a < e + 1"
    by (rule pow2_less_imp)
  have "pow2 e < pow2 (floor_log2 a + 1)"
    using b assms(1) by simp
  then have 2: "e < floor_log2 a + 1"
    by (rule pow2_less_imp)
  from 1 2 show ?thesis by simp
qed

lemma round_to_double_eval:
  "round_to_double x =
     (if x = 0 then Fin 0
      else if pow2 1024 \<le>
                of_int (round_half_even (\<bar>x\<bar> / pow2 (max (floor_log2 \<bar>x\<bar>) (- 1022) - 52)))
                  * pow2 (max (floor_log2 \<bar>x\<bar>) (- 1022) - 52)
           then (if 0 < x then PInf else NInf)
           else Fin (if 0 < x
                     then of_int (round_half_even
                                    (\<bar>x\<bar> / pow2 (max (floor_log2 \<bar>x\<bar>) (- 1022) - 52)))
                            * pow2 (max (floor_log2 \<bar>x\<bar>) (- 1022) - 52)
                     else - (of_int (round_half_even
                                       (\<bar>x\<bar> / pow2 (max (floor_log2 \<bar>x\<bar>) (- 1022) - 52)))
                            * pow2 (max (floor_log2 \<bar>x\<bar>) (- 1022) - 52))))"
  unfolding round_to_double_def Let_def by (rule refl)

lemma round_half_even_eval:
  "round_half_even q =
     (if q - of_int \<lfloor>q\<rfloor> < 1 / 2 then \<lfloor>q\<rfloor>
      else if 1 / 2 < q - of_int \<lfloor>q\<rfloor> then \<lfloor>q\<rfloor> + 1
      else if even \<lfloor>q\<rfloor> then \<lfloor>q\<rfloor> else \<lfloor>q\<rfloor> + 1)"
  unfolding round_half_even_def Let_def by (rule refl)

lemmas double_eval = round_to_double_eval round_half_even_eval pow2_def floor_log2.simps

lemma round_to_double_at:
  assumes "pow2 e \<le> \<bar>x\<bar>" and "\<bar>x\<bar> < pow2 (e + 1)"
  shows "round_to_double x =
     (if pow2 1024 \<le> of_int (round_half_even (\<bar>x\<bar> / pow2 (max e (- 1022) - 52)))
                        * pow2 (max e (- 1022) - 52)
      then (if 0 < x then PInf else NInf)
      else Fin (if 0 < x
                then of_int (round_half_even (\<bar>x\<bar> / pow2 (max e (- 1022) - 52)))
                       * pow2 (max e (- 1022) - 52)
                else - (of_int (round_half_even (\<bar>x\<bar> / pow2 (max e (- 1022) - 52)))
                       * pow2 (max e (- 1022) - 52))))"
proof -
  have "x \<noteq> 0"
    using assms(1) pow2_pos [of e] by auto
  then show ?thesis
    unfolding round_to_double_eval floor_log2_unique [OF assms] by (simp only: if_False)
qed

text \<open>The ends of the range: the largest double, overflow, the smallest subnormal, underflow.\<close>

lemma round_max_double:
  "round_to_double (2 ^ 1024 - 2 ^ 971) = Fin (2 ^ 1024 - 2 ^ 971)"
  by (subst round_to_double_at [where e = 1023]) (simp_all add: pow2_def round_half_even_eval)

lemma round_overflow: "round_to_double (2 ^ 1024 - 2 ^ 970) = PInf"
  by (subst round_to_double_at [where e = 1023]) (simp_all add: pow2_def round_half_even_eval)

lemma round_min_subnormal: "round_to_double (1 / 2 ^ 1074) = Fin (1 / 2 ^ 1074)"
  by (subst round_to_double_at [where e = "- 1074"]) (simp_all add: pow2_def round_half_even_eval)

lemma round_underflow: "round_to_double (1 / 2 ^ 1075) = Fin 0"
  by (subst round_to_double_at [where e = "- 1075"]) (simp_all add: pow2_def round_half_even_eval)

text \<open>The literals of the source, and the sum every console shows.\<close>

lemma round_3_10: "round_to_double (3 / 10) = Fin (5404319552844595 / 18014398509481984)"
  by (simp add: double_eval)

lemma round_3_20: "round_to_double (3 / 20) = Fin (5404319552844595 / 36028797018963968)"
  by (simp add: double_eval)

lemma round_1_2: "round_to_double (1 / 2) = Fin (1 / 2)"
  by (simp add: double_eval)

lemma round_1_4: "round_to_double (1 / 4) = Fin (1 / 4)"
  by (simp add: double_eval)

lemma round_6_5: "round_to_double (6 / 5) = Fin (5404319552844595 / 4503599627370496)"
  by (simp add: double_eval)

lemma round_11_2: "round_to_double (11 / 2) = Fin (11 / 2)"
  by (simp add: double_eval)

lemma round_0: "round_to_double 0 = Fin 0"
  by (simp add: round_to_double_def)

lemma round_3: "round_to_double 3 = Fin 3"
  by (simp add: double_eval)

lemma round_8: "round_to_double 8 = Fin 8"
  by (simp add: double_eval)

lemma tenth_plus_fifth:
  "js_add (js_lit 0.1) (js_lit 0.2) = Fin (1351079888211149 / 4503599627370496)
   \<and> js_add (js_lit 0.1) (js_lit 0.2) \<noteq> js_lit 0.3"
  by (simp add: js_lit_def double_eval)

text \<open>
  The error of one rounding. A non-negative rational up to \<open>pow2 1023\<close> is rounded to a
  finite non-negative double at most half a unit in the last place away: a relative
  \<open>pow2 (- 53)\<close> from the normal numbers on, \<open>pow2 (- 1075)\<close> below them.
\<close>

lemma pow2_add: "pow2 (a + b) = pow2 a * pow2 b"
  unfolding pow2_powi by (rule power_int_add) simp

lemma pow2_mono: "a \<le> b \<Longrightarrow> pow2 a \<le> pow2 b"
  unfolding pow2_powi by (intro power_int_increasing) simp_all

lemma round_half_even_near: "\<bar>of_int (round_half_even q) - q\<bar> \<le> 1 / 2"
proof -
  have "of_int \<lfloor>q\<rfloor> \<le> q" and "q < of_int \<lfloor>q\<rfloor> + 1"
    by linarith+
  then show ?thesis
    unfolding round_half_even_eval by (auto simp: abs_le_iff)
qed

lemma round_half_even_nonneg: "0 \<le> q \<Longrightarrow> 0 \<le> round_half_even q"
proof -
  assume "0 \<le> q"
  then have "0 \<le> \<lfloor>q\<rfloor>"
    by simp
  then show ?thesis
    unfolding round_half_even_eval by simp
qed

lemma round_to_double_near:
  assumes nonneg: "0 \<le> x" and small: "x \<le> pow2 1023"
  shows "\<exists>y. round_to_double x = Fin y \<and> 0 \<le> y
           \<and> \<bar>y - x\<bar> \<le> pow2 (- 53) * x + pow2 (- 1075)"
proof (cases "x = 0")
  case True
  have "0 \<le> pow2 (- 1075)"
    using pow2_pos [of "- 1075"] by simp
  with True show ?thesis
    by (simp add: round_0)
next
  case False
  with nonneg have pos: "0 < x"
    by simp
  define e where "e = floor_log2 x"
  define k where "k = max e (- 1022) - 52"
  define n where "n = round_half_even (x / pow2 k)"
  define y where "y = of_int n * pow2 k"
  from floor_log2_bounds [OF pos] have lo: "pow2 e \<le> x" and hi: "x < pow2 (e + 1)"
    by (simp_all add: e_def)
  have "pow2 1023 < pow2 1024"
    by (simp add: pow2_def)
  with lo small have "pow2 e < pow2 1024"
    by simp
  then have e_le: "e \<le> 1023"
    using pow2_less_imp [of e 1024] by simp
  have ulp_pos: "0 < pow2 k"
    by (rule pow2_pos)
  have "\<bar>of_int n - x / pow2 k\<bar> \<le> 1 / 2"
    unfolding n_def by (rule round_half_even_near)
  then have "\<bar>of_int n - x / pow2 k\<bar> * pow2 k \<le> 1 / 2 * pow2 k"
    using ulp_pos by (intro mult_right_mono) simp_all
  moreover have "\<bar>of_int n - x / pow2 k\<bar> * pow2 k = \<bar>y - x\<bar>"
  proof -
    have "\<bar>of_int n - x / pow2 k\<bar> * pow2 k = \<bar>(of_int n - x / pow2 k) * pow2 k\<bar>"
      using ulp_pos by (simp add: abs_mult)
    also have "(of_int n - x / pow2 k) * pow2 k = y - x"
      using ulp_pos by (simp add: y_def field_simps)
    finally show ?thesis .
  qed
  ultimately have err: "\<bar>y - x\<bar> \<le> pow2 (k - 1)"
    by (simp add: pow2_sub1)
  have bound: "pow2 (k - 1) \<le> pow2 (- 53) * x + pow2 (- 1075)"
  proof (cases "- 1022 \<le> e")
    case True
    then have "k - 1 = - 53 + e"
      by (simp add: k_def)
    then have "pow2 (k - 1) = pow2 (- 53) * pow2 e"
      by (simp only: pow2_add)
    also have "\<dots> \<le> pow2 (- 53) * x"
      using lo pow2_pos [of "- 53"] by (intro mult_left_mono) simp_all
    finally show ?thesis
      using pow2_pos [of "- 1075"] by simp
  next
    case False
    then have "k - 1 = - 1075"
      by (simp add: k_def)
    then have "pow2 (k - 1) = pow2 (- 1075)"
      by (simp only:)
    moreover have "0 \<le> pow2 (- 53) * x"
      using nonneg pow2_pos [of "- 53"] by simp
    ultimately show ?thesis
      by linarith
  qed
  have "k - 1 \<le> 970"
    using e_le by (simp add: k_def)
  then have "pow2 (k - 1) \<le> pow2 970"
    by (rule pow2_mono)
  moreover have "pow2 1023 + pow2 970 < pow2 1024"
    by (simp add: pow2_def)
  ultimately have fin: "\<not> pow2 1024 \<le> y"
    using err small by (simp add: abs_le_iff)
  have "0 \<le> n"
    unfolding n_def using nonneg ulp_pos by (intro round_half_even_nonneg) simp
  then have y_nonneg: "0 \<le> y"
    using ulp_pos by (simp add: y_def)
  have ax: "\<bar>x\<bar> = x"
    using nonneg by simp
  have "round_to_double x = Fin y"
    unfolding round_to_double_eval ax
    using False pos fin by (simp add: y_def n_def k_def e_def)
  with y_nonneg err bound show ?thesis
    by (intro exI [of _ y]) simp
qed

section \<open>Properties of the contact form\<close>

lemma submits_keeps_sent: "sent st \<Longrightarrow> sent (submits es st)"
  by (induction es arbitrary: st) (simp_all add: onSubmit_def setSent_def)

lemma submits_sent_iff: "sent (submits es st) = (sent st \<or> es \<noteq> [])"
proof (cases es)
  case Nil
  then show ?thesis by simp
next
  case (Cons e es')
  have "sent (submits es' (snd (onSubmit e st)))"
    by (rule submits_keeps_sent) (simp add: onSubmit_def setSent_def)
  with Cons show ?thesis by simp
qed

text \<open>
  C1. The state of the contact form is the single boolean \<open>sent\<close>, \<open>False\<close> when the
  component is mounted. Every submit event that reaches the handler has its default
  prevented and leaves \<open>sent\<close> true; a second submit changes nothing more; after any
  sequence of submits \<open>sent\<close> is true exactly when there was at least one; and once \<open>sent\<close>
  is true no sequence of submits makes it false again (the handler is the only place that
  writes the state, and it writes \<open>True\<close>).
\<close>

theorem contact_form_sent_latch:
  "sent ContactForm_init = False
   \<and> defaultPrevented (fst (onSubmit e st)) = True
   \<and> sent (snd (onSubmit e st)) = True
   \<and> snd (onSubmit e' (snd (onSubmit e st))) = snd (onSubmit e st)
   \<and> sent (submits es ContactForm_init) = (es \<noteq> [])
   \<and> (sent st \<longrightarrow> sent (submits es st))"
  using submits_sent_iff [of es ContactForm_init] submits_keeps_sent [of st es]
  by (simp add: ContactForm_init_def onSubmit_def setSent_def preventDefault_def)

theorem contact_form_sent_latch_witness:
  "sent \<lparr>sent = True\<rparr>
   \<and> sent (submits [\<lparr>target_values = [''a'', ''b'', '''', ''c''], defaultPrevented = False\<rparr>,
                     \<lparr>target_values = [], defaultPrevented = False\<rparr>] \<lparr>sent = True\<rparr>)
   \<and> sent (submits [\<lparr>target_values = [''a'', ''b'', '''', ''c''], defaultPrevented = False\<rparr>,
                     \<lparr>target_values = [], defaultPrevented = False\<rparr>] ContactForm_init)"
  using contact_form_sent_latch
    [of "\<lparr>target_values = [], defaultPrevented = False\<rparr>" "\<lparr>sent = True\<rparr>"
        "\<lparr>target_values = [], defaultPrevented = False\<rparr>"
        "[\<lparr>target_values = [''a'', ''b'', '''', ''c''], defaultPrevented = False\<rparr>,
          \<lparr>target_values = [], defaultPrevented = False\<rparr>]"]
  by simp

lemma ContactForm_controls:
  "form_controls (ContactForm st) =
     [El ''input'' [(''placeholder'', JStr ''Full name''), (''required'', JBool True)] [],
      El ''input''
        [(''placeholder'', JStr ''Email''), (''type'', JStr ''email''),
         (''required'', JBool True)] [],
      El ''input'' [(''placeholder'', JStr ''Subject'')] [],
      El ''textarea'' [(''placeholder'', JStr ''Message''), (''required'', JBool True)] []]"
  by (simp add: form_controls_def ContactForm_def kids_def is_control_def tag_of_def)

lemma ContactForm_constraints:
  "map (\<lambda>c. (is_required c, control_type c)) (form_controls (ContactForm st)) =
     [(True, None), (True, Some ''email''), (False, None), (True, None)]"
  unfolding ContactForm_controls by (simp add: is_required_def control_type_def attr_def)

text \<open>
  C9. For every submit event that reaches \<open>onSubmit\<close> the handler prevents the default and
  sets \<open>sent\<close>, whatever the name, email, subject and message hold; the form's only
  validation is the \<^verbatim>\<open>required\<close> and \<^verbatim>\<open>type="email"\<close> attributes of its controls.
\<close>

theorem handler_does_not_validate:
  "onSubmit e st = (e\<lparr>defaultPrevented := True\<rparr>, st\<lparr>sent := True\<rparr>)
   \<and> snd (onSubmit \<lparr>target_values = vs, defaultPrevented = p\<rparr> st)
       = snd (onSubmit \<lparr>target_values = vs', defaultPrevented = p'\<rparr> st)
   \<and> sent (snd (onSubmit \<lparr>target_values = vs, defaultPrevented = p\<rparr> st)) = True
   \<and> defaultPrevented (fst (onSubmit \<lparr>target_values = vs, defaultPrevented = p\<rparr> st)) = True
   \<and> target_values (fst (onSubmit \<lparr>target_values = vs, defaultPrevented = p\<rparr> st)) = vs
   \<and> sent (snd (onSubmit \<lparr>target_values = ['''', ''not-an-email'', '''', ''''],
                            defaultPrevented = False\<rparr> ContactForm_init)) = True
   \<and> map (\<lambda>c. (is_required c, control_type c)) (form_controls (ContactForm st)) =
        [(True, None), (True, Some ''email''), (False, None), (True, None)]
   \<and> attr (ContactForm st) ''noValidate'' = None"
  using ContactForm_constraints [of st]
  by (simp add: onSubmit_def setSent_def preventDefault_def ContactForm_def attr_def)

section \<open>Properties of the rendered lists\<close>

lemma concat_singletons: "concat (map (\<lambda>s. [s]) ss) = ss"
  by (induction ss) simp_all

lemma texts_pills:
  "concat (map (texts \<circ> (\<lambda>t. El ''span'' [(''key'', JStr t)] [Text t])) ts) = ts"
  by (induction ts) simp_all

lemma find_tag_pills:
  "g \<noteq> ''span'' \<Longrightarrow>
   concat (map (find_tag g) (map (\<lambda>t. El ''span'' [(''key'', JStr t)] [Text t]) ts)) = []"
  by (induction ts) simp_all

lemma card_tags_ProjectCard:
  "card_tags (ProjectCard props) = (case tags props of None \<Rightarrow> [] | Some ts \<Rightarrow> ts)"
  by (simp add: card_tags_def card_pills_def ProjectCard_def kids_def Let_def texts_pills
      split: option.split)

lemma card_pills_ProjectCard:
  "card_pills (ProjectCard props) =
     map (\<lambda>t. El ''span'' [(''key'', JStr t)] [Text t])
       (case tags props of None \<Rightarrow> [] | Some ts \<Rightarrow> ts)"
  by (simp add: card_pills_def ProjectCard_def kids_def Let_def split: option.split)

lemma card_href_ProjectCard:
  "card_href (ProjectCard props) =
     Some (JStr (case href props of None \<Rightarrow> ''#'' | Some h \<Rightarrow> h))"
  by (simp add: card_href_def ProjectCard_def attr_def Let_def)

lemma card_title_ProjectCard: "card_title (ProjectCard props) = [title props]"
  by (simp add: card_title_def ProjectCard_def Let_def find_tag_pills)

lemma card_description_ProjectCard:
  "card_description (ProjectCard props) = [description props]"
  by (simp add: card_description_def ProjectCard_def Let_def find_tag_pills)

lemma card_of_cell: "card_of (El t ps [c]) = c"
  by (simp add: card_of_def kids_def)

lemma length_skills: "length skills = 9"
  by (simp add: skills_def)

text \<open>
  C10. \<open>ProjectCard\<close> takes \<open>tags\<close> and \<open>href\<close> as optional: with \<open>tags\<close> omitted the card
  has no pills and an empty tag list, with \<open>href\<close> omitted it links to \<^verbatim>\<open>#\<close>; a value
  that is given is used as it is. \<open>title\<close> and \<open>description\<close> are plain strings of the
  props (there is no default for them) and are shown as given.
\<close>

theorem project_card_defaults:
  "card_pills (ProjectCard \<lparr>title = t, description = d, tags = None, href = h\<rparr>) = []
   \<and> card_tags (ProjectCard \<lparr>title = t, description = d, tags = None, href = h\<rparr>) = []
   \<and> card_tags (ProjectCard \<lparr>title = t, description = d, tags = Some ts, href = h\<rparr>) = ts
   \<and> card_href (ProjectCard \<lparr>title = t, description = d, tags = g, href = None\<rparr>)
       = Some (JStr ''#'')
   \<and> card_href (ProjectCard \<lparr>title = t, description = d, tags = g, href = Some u\<rparr>)
       = Some (JStr u)
   \<and> card_title (ProjectCard \<lparr>title = t, description = d, tags = g, href = h\<rparr>) = [t]
   \<and> card_description (ProjectCard \<lparr>title = t, description = d, tags = g, href = h\<rparr>) = [d]"
  by (simp add: card_tags_ProjectCard card_pills_ProjectCard card_href_ProjectCard
      card_title_ProjectCard card_description_ProjectCard)

text \<open>The lists as a reader finds them on the page.\<close>

lemma tag_of_Navbar: "tag_of Navbar = ''div''"
  by (simp add: Navbar_def navbar_list_def tag_of_def)

lemma tag_of_Hero: "tag_of Hero = ''div''"
  by (simp add: Hero_def tag_of_def)

lemma kids_El: "kids (El t ps cs) = cs"
  by (simp add: kids_def)

lemma tag_of_El: "tag_of (El t ps cs) = t"
  by (simp add: tag_of_def)

lemma tag_of_Section: "tag_of (Section i t k cs) = ''section''"
  by (simp add: Section_def tag_of_def)

lemma id_Section: "attr (Section i t k cs) ''id'' = Some (JStr i)"
  by (simp add: Section_def attr_def)

lemma body_Section:
  "(case kids (Section i t k cs) of [heading, body] \<Rightarrow> kids body | _ \<Rightarrow> []) = cs"
  by (simp add: Section_def kids_def)

lemma section_content_page:
  "section_content ''projects'' (Portfolio3DApp year st) = [projects_grid projects]"
  "section_content ''skills'' (Portfolio3DApp year st) = [Skills]"
  "section_content ''experience'' (Portfolio3DApp year st) = [Experience]"
  by (simp_all add: section_content_def Portfolio3DApp_def kids_El tag_of_El tag_of_Navbar
      tag_of_Hero tag_of_Section id_Section body_Section)

lemma nav_Section:
  "find_tag ''nav'' (Section i t k cs) =
     find_tag ''nav'' k @ find_tag ''nav'' t @ concat (map (find_tag ''nav'') cs)"
  by (simp add: Section_def)

lemma nav_Hero: "find_tag ''nav'' Hero = []"
  by (simp add: Hero_def PortfolioScene_def Glow_def FloatingKnot_def SpinningTetra_def
      SceneBadge_def Let_def)

lemma nav_projects_grid: "find_tag ''nav'' (projects_grid ps) = []"
  by (induction ps) (simp_all add: projects_grid_def ProjectCard_def Let_def spread_def)

lemma nav_Skills: "find_tag ''nav'' Skills = []"
  by (simp add: Skills_def skills_grid_def skills_def)

lemma nav_Experience: "find_tag ''nav'' Experience = []"
  by (simp add: Experience_def experience_timeline_def roles_def)

lemma nav_ContactForm: "find_tag ''nav'' (ContactForm st) = []"
  by (simp add: ContactForm_def)

lemma texts_points:
  "concat (map (texts \<circ> (\<lambda>p. El ''li'' [(''key'', JStr p)] [Text p])) ps) = ps"
  by (induction ps) simp_all

lemma li_points:
  "concat (map (find_tag ''li'' \<circ> (\<lambda>p. El ''li'' [(''key'', JStr p)] [Text p])) ps)
     = map (\<lambda>p. El ''li'' [(''key'', JStr p)] [Text p]) ps"
  by (induction ps) simp_all

lemma href_points:
  "concat (map (str_attrs ''href'' \<circ> (\<lambda>p. El ''li'' [(''key'', JStr p)] [Text p])) ps) = []"
  by (induction ps) simp_all

lemma timeline_items_texts:
  "map texts (timeline_items (experience_timeline rs)) =
     map (\<lambda>r. [role_period r, role_org r, role_title r] @ role_points r) rs"
  by (simp add: timeline_items_def experience_timeline_def kids_def texts_points)

lemma timeline_items_points:
  "map entry_points (timeline_items (experience_timeline rs)) = map role_points rs"
  by (simp add: timeline_items_def experience_timeline_def kids_def entry_points_def li_points
      texts_points)

lemma timeline_items_links:
  "map (str_attrs ''href'') (timeline_items (experience_timeline rs)) =
     map (\<lambda>r. [role_orgLink r]) rs"
  by (simp add: timeline_items_def experience_timeline_def kids_def href_points)

lemma anchors_items:
  "concat (map (find_tag ''a'' \<circ>
                (\<lambda>l. El ''li'' [(''key'', JStr (link_href l))]
                        [El ''a'' [(''href'', JStr (link_href l))] [Text (link_label l)]])) ls)
     = map (\<lambda>l. El ''a'' [(''href'', JStr (link_href l))] [Text (link_label l)]) ls"
  by (induction ls) simp_all

lemma nav_anchors_navbar_list:
  "nav_anchors (navbar_list ls) =
     map (\<lambda>l. El ''a'' [(''href'', JStr (link_href l))] [Text (link_label l)]) ls"
proof -
  have "concat (map (find_tag ''nav'' \<circ>
                (\<lambda>l. El ''li'' [(''key'', JStr (link_href l))]
                        [El ''a'' [(''href'', JStr (link_href l))] [Text (link_label l)]])) ls)
     = []"
    by (induction ls) simp_all
  then show ?thesis
    by (simp add: nav_anchors_def navbar_list_def anchors_items)
qed

lemma nav_links_navbar_list:
  "map (\<lambda>a. (attr a ''href'', texts a)) (nav_anchors (navbar_list ls))
     = map (\<lambda>l. (Some (JStr (link_href l)), [link_label l])) ls"
  unfolding nav_anchors_navbar_list by (simp add: attr_def)

lemma nav_anchors_page:
  "nav_anchors (Portfolio3DApp year st) = nav_anchors Navbar"
proof -
  have "find_tag ''nav'' (Portfolio3DApp year st) = find_tag ''nav'' Navbar"
    by (simp add: Portfolio3DApp_def nav_Section nav_Hero nav_projects_grid nav_Skills
        nav_Experience nav_ContactForm)
  then show ?thesis
    by (simp only: nav_anchors_def)
qed

lemma timeline_entries_page:
  "timeline_entries (Portfolio3DApp year st) = timeline_items Experience"
  by (simp add: timeline_entries_def section_content_page)

text \<open>
  C4. The lists are rendered in their declared order, nothing sorted, dropped or merged.
  For every array of projects the gallery has one cell per project, and the cards read off
  the cells, in order, carry the projects' titles and, element for element, their tag
  lists; the skills grid has one entry per skill in order, and for the nine skills the
  component declares it has nine entries whose texts are those skills; for every list of
  roles the timeline has one entry per role, in order, showing the role's period,
  organisation and title, its points element for element, and linking to its organisation;
  for every list of links the navigation has one anchor per link, in order, with its href
  and its label. On the page itself (of any year, with the form in any state): the cells
  of the Projects section are one per project of \<open>projects\<close>, in order, with its title
  and its tag list; the entries of the Skills section are the nine skills, in order; the
  entries of the Experience timeline are those of \<open>roles\<close>, in order; and the links of the
  navigation are those of \<open>links\<close>, in order.
\<close>

theorem lists_rendered_in_declared_order:
  "length (kids (projects_grid ps)) = length ps
   \<and> map (card_title \<circ> card_of) (kids (projects_grid ps)) = map (\<lambda>p. [project_title p]) ps
   \<and> map (card_tags \<circ> card_of) (kids (projects_grid ps)) = map project_tags ps
   \<and> map (card_tags \<circ> card_of) (kids (projects_grid projects)) =
       [[''React'', ''Node'', ''MySQL'', ''RAG''],
        [''React'', ''Express'', ''Redis'', ''Cloudinary''],
        [''Talend'', ''Oracle'', ''SQL''],
        [''Next.js'', ''WebSocket'', ''Redis'']]
   \<and> map texts (kids (skills_grid ss)) = map (\<lambda>s. [s]) ss
   \<and> length skills = 9
   \<and> length (kids Skills) = 9
   \<and> concat (map texts (kids Skills)) = skills
   \<and> map texts (timeline_items (experience_timeline rs))
       = map (\<lambda>r. [role_period r, role_org r, role_title r] @ role_points r) rs
   \<and> map entry_points (timeline_items (experience_timeline rs)) = map role_points rs
   \<and> map (str_attrs ''href'') (timeline_items (experience_timeline rs))
       = map (\<lambda>r. [role_orgLink r]) rs
   \<and> map (\<lambda>a. (attr a ''href'', texts a)) (nav_anchors (navbar_list ls))
       = map (\<lambda>l. (Some (JStr (link_href l)), [link_label l])) ls
   \<and> length (gallery_cells (Portfolio3DApp year st)) = length projects
   \<and> map (card_title \<circ> card_of) (gallery_cells (Portfolio3DApp year st))
       = map (\<lambda>p. [project_title p]) projects
   \<and> map (card_tags \<circ> card_of) (gallery_cells (Portfolio3DApp year st))
       = map project_tags projects
   \<and> length (skill_entries (Portfolio3DApp year st)) = 9
   \<and> map texts (skill_entries (Portfolio3DApp year st)) = map (\<lambda>s. [s]) skills
   \<and> length (timeline_entries (Portfolio3DApp year st)) = length roles
   \<and> map texts (timeline_entries (Portfolio3DApp year st))
       = map (\<lambda>r. [role_period r, role_org r, role_title r] @ role_points r) roles
   \<and> map entry_points (timeline_entries (Portfolio3DApp year st)) = map role_points roles
   \<and> map (str_attrs ''href'') (timeline_entries (Portfolio3DApp year st))
       = map (\<lambda>r. [role_orgLink r]) roles
   \<and> length (nav_anchors (Portfolio3DApp year st)) = length links
   \<and> map (\<lambda>a. (attr a ''href'', texts a)) (nav_anchors (Portfolio3DApp year st))
       = map (\<lambda>l. (Some (JStr (link_href l)), [link_label l])) links"
proof -
  have a: "length (kids (projects_grid qs)) = length qs" for qs
    by (simp add: projects_grid_def kids_def)
  have b: "map (card_title \<circ> card_of) (kids (projects_grid qs)) = map (\<lambda>p. [project_title p]) qs"
    for qs
    by (simp add: projects_grid_def kids_def card_of_cell card_title_ProjectCard spread_def)
  have c: "map (card_tags \<circ> card_of) (kids (projects_grid qs)) = map project_tags qs" for qs
    by (simp add: projects_grid_def kids_def card_of_cell card_tags_ProjectCard spread_def)
  have c': "map project_tags projects =
       [[''React'', ''Node'', ''MySQL'', ''RAG''],
        [''React'', ''Express'', ''Redis'', ''Cloudinary''],
        [''Talend'', ''Oracle'', ''SQL''],
        [''Next.js'', ''WebSocket'', ''Redis'']]"
    by (simp add: projects_def)
  have d: "map texts (kids (skills_grid xs)) = map (\<lambda>s. [s]) xs" for xs
    by (simp add: skills_grid_def kids_def)
  have e: "length (kids Skills) = 9"
    by (simp add: Skills_def skills_grid_def kids_def length_skills)
  have f: "concat (map texts (kids Skills)) = skills"
    unfolding Skills_def d by (rule concat_singletons)
  have g: "gallery_cells (Portfolio3DApp year st) = kids (projects_grid projects)"
    by (simp add: gallery_cells_def section_content_page)
  have h: "skill_entries (Portfolio3DApp year st) = kids Skills"
    by (simp add: skill_entries_def section_content_page)
  have i: "map texts (kids Skills) = map (\<lambda>s. [s]) skills"
    unfolding Skills_def by (rule d)
  have j: "length (timeline_items (experience_timeline xs)) = length xs" for xs
    by (simp add: timeline_items_def experience_timeline_def kids_def)
  have k: "length (nav_anchors (navbar_list xs)) = length xs" for xs
    by (simp add: nav_anchors_navbar_list)
  show ?thesis
    unfolding g h timeline_entries_page nav_anchors_page Experience_def Navbar_def
    using a [of ps] a [of projects] b [of ps] b [of projects] c [of ps] c [of projects] c'
      d [of ss] e f i j [of roles] k [of links] length_skills
      timeline_items_texts [of rs] timeline_items_texts [of roles]
      timeline_items_points [of rs] timeline_items_points [of roles]
      timeline_items_links [of rs] timeline_items_links [of roles]
      nav_links_navbar_list [of ls] nav_links_navbar_list [of links]
    by simp
qed

section \<open>Anchors and navigation\<close>












section \<open>Properties of the per-frame updates\<close>

lemma js_lit_03: "js_lit 0.3 = Fin (double_of 0.3)"
  by (simp add: js_lit_def double_of_def round_3_10)

lemma js_lit_05: "js_lit 0.5 = Fin (double_of 0.5)"
  by (simp add: js_lit_def double_of_def round_1_2)

lemma js_lit_025: "js_lit 0.25 = Fin (double_of 0.25)"
  by (simp add: js_lit_def double_of_def round_1_4)

lemma js_lit_015: "js_lit 0.15 = Fin (double_of 0.15)"
  by (simp add: js_lit_def double_of_def round_3_20)

lemma tetra_x_fold:
  "rot_x (frames SpinningTetra_useFrame ds r) =
     foldl (\<lambda>x d. js_add x (js_mul d (js_lit 0.3))) (rot_x r) ds"
  by (induction ds arbitrary: r) (simp_all add: SpinningTetra_useFrame_def Let_def)

lemma tetra_y_fold:
  "rot_y (frames SpinningTetra_useFrame ds r) =
     foldl (\<lambda>x d. js_add x (js_mul d (js_lit 0.5))) (rot_y r) ds"
  by (induction ds arbitrary: r) (simp_all add: SpinningTetra_useFrame_def Let_def)

lemma knot_x_fold:
  "rot_x (frames FloatingKnot_useFrame ds r) =
     foldl (\<lambda>x d. js_add x (js_mul d (js_lit 0.25))) (rot_x r) ds"
  by (induction ds arbitrary: r) (simp_all add: FloatingKnot_useFrame_def Let_def)

lemma knot_z_fold:
  "rot_z (frames FloatingKnot_useFrame ds r) =
     foldl (\<lambda>x d. js_add x (js_mul d (js_lit 0.15))) (rot_z r) ds"
  by (induction ds arbitrary: r) (simp_all add: FloatingKnot_useFrame_def Let_def)

text \<open>The angle a callback does not write stays what it was, over any frames.\<close>

lemma tetra_z_kept: "rot_z (frames SpinningTetra_useFrame ds r) = rot_z r"
  by (induction ds arbitrary: r) (simp_all add: SpinningTetra_useFrame_def Let_def)

lemma knot_y_kept: "rot_y (frames FloatingKnot_useFrame ds r) = rot_y r"
  by (induction ds arbitrary: r) (simp_all add: FloatingKnot_useFrame_def Let_def)

text \<open>
  C7, as stated, fails. Frames of 3/64 s and 4/64 s and one frame of 7/64 s take the same
  time, and all three deltas are doubles; from rotation 0 they leave a tetrahedron at
  different angles about x (0.032812499999999994 and 0.0328125).
\<close>

theorem frame_split_changes_rotation:
  "sum_list [3 / 64, 4 / 64] = sum_list [7 / 64 :: rat]
   \<and> is_double (3 / 64) \<and> is_double (4 / 64) \<and> is_double (7 / 64)
   \<and> rot_x (frames SpinningTetra_useFrame [Fin (3 / 64), Fin (4 / 64)]
              \<lparr>rot_x = Fin 0, rot_y = Fin 0, rot_z = Fin 0\<rparr>)
       = Fin (1182194902184755 / 36028797018963968)
   \<and> rot_x (frames SpinningTetra_useFrame [Fin (7 / 64)]
              \<lparr>rot_x = Fin 0, rot_y = Fin 0, rot_z = Fin 0\<rparr>)
       = Fin (4728779608739021 / 144115188075855872)
   \<and> rot_x (frames SpinningTetra_useFrame [Fin (3 / 64), Fin (4 / 64)]
              \<lparr>rot_x = Fin 0, rot_y = Fin 0, rot_z = Fin 0\<rparr>)
       \<noteq> rot_x (frames SpinningTetra_useFrame [Fin (7 / 64)]
                \<lparr>rot_x = Fin 0, rot_y = Fin 0, rot_z = Fin 0\<rparr>)"
  by (simp add: SpinningTetra_useFrame_def js_lit_def round_3_10 round_1_2 is_double_def Let_def)
     (simp add: double_eval)

text \<open>
  The roundings of a run of frames. With non-negative deltas and a non-negative start the
  running angle stays between the unrounded angle scaled by \<open>1 - pow2 (- 53)\<close> and by
  \<open>1 + pow2 (- 53)\<close> once for every rounding it has been through, up to the little the
  subnormal numbers add; over ordinary frames this is within the tolerance of the
  unrounded angle.
\<close>

lemma power_upper:
  fixes u :: rat
  shows "0 \<le> u \<Longrightarrow> of_nat m * u \<le> 1 / 2 \<Longrightarrow> (1 + u) ^ m \<le> 1 + 2 * of_nat m * u"
proof (induction m)
  case 0
  then show ?case by simp
next
  case (Suc m)
  have mu: "of_nat m * u \<le> 1 / 2"
    using Suc.prems by (simp add: algebra_simps)
  have "0 \<le> of_nat m * u"
    using Suc.prems(1) by simp
  have "(1 + u) ^ Suc m = (1 + u) * (1 + u) ^ m"
    by simp
  also have "\<dots> \<le> (1 + u) * (1 + 2 * of_nat m * u)"
    using Suc.IH [OF Suc.prems(1) mu] Suc.prems(1) by (intro mult_left_mono) simp_all
  also have "\<dots> = 1 + 2 * of_nat m * u + u + 2 * (of_nat m * u) * u"
    by (simp add: algebra_simps)
  also have "2 * (of_nat m * u) * u \<le> 1 * u"
    using mu Suc.prems(1) by (intro mult_right_mono) simp_all
  finally show ?case
    by (simp add: algebra_simps)
qed

lemma power_lower:
  fixes u :: rat
  shows "0 \<le> u \<Longrightarrow> u \<le> 1 \<Longrightarrow> 1 - of_nat m * u \<le> (1 - u) ^ m"
proof (induction m)
  case 0
  then show ?case by simp
next
  case (Suc m)
  have "0 \<le> of_nat m * u * u"
    using Suc.prems(1) by simp
  then have "1 - of_nat (Suc m) * u \<le> (1 - u) * (1 - of_nat m * u)"
    by (simp add: algebra_simps)
  also have "\<dots> \<le> (1 - u) * (1 - u) ^ m"
    using Suc.IH [OF Suc.prems] Suc.prems by (intro mult_left_mono) simp_all
  finally show ?case
    by simp
qed

lemma accumulate_near:
  fixes c a :: rat
  assumes c: "0 \<le> c" and a: "0 \<le> a"
  shows "list_all (\<lambda>d. 0 \<le> d) ds \<Longrightarrow>
     (1 + pow2 (- 53)) ^ (length ds + 1)
       * (a + c * sum_list ds + 2 * of_nat (length ds) * pow2 (- 1075)) \<le> pow2 1023 \<Longrightarrow>
     \<exists>y. foldl (\<lambda>x d. js_add x (js_mul d (Fin c))) (Fin a) (map Fin ds) = Fin y
        \<and> 0 \<le> y
        \<and> (1 - pow2 (- 53)) ^ (length ds + 1) * (a + c * sum_list ds)
             - 2 * of_nat (length ds) * pow2 (- 1075) \<le> y
        \<and> y \<le> (1 + pow2 (- 53)) ^ (length ds + 1)
                 * (a + c * sum_list ds + 2 * of_nat (length ds) * pow2 (- 1075))"
proof (induction ds rule: rev_induct)
  case Nil
  have "0 < pow2 (- 53)" and "pow2 (- 53) \<le> 1"
    by (simp_all add: pow2_def)
  then have "(1 - pow2 (- 53)) * a \<le> a" and "a \<le> (1 + pow2 (- 53)) * a"
    using a by (simp_all add: mult_left_le_one_le mult_le_cancel_right1)
  with a show ?case
    by simp
next
  case (snoc d ds)
  define u where "u = pow2 (- 53)"
  define h where "h = pow2 (- 1075)"
  define K :: rat where "K = of_nat (length ds)"
  define S where "S = a + c * sum_list ds"
  define t where "t = d * c"
  define A where "A = (1 + u) ^ (length ds + 1)"
  define B where "B = (1 - u) ^ (length ds + 1)"
  have u: "0 \<le> u" "u \<le> 1" and h: "0 \<le> h"
    by (simp_all add: u_def h_def pow2_def)
  have K: "0 \<le> K"
    by (simp add: K_def)
  from snoc.prems(1) have ds: "list_all (\<lambda>d. 0 \<le> d) ds" and d: "0 \<le> d"
    by simp_all
  have "0 \<le> sum_list ds"
    using ds by (intro sum_list_nonneg) (simp add: list_all_iff)
  then have S: "0 \<le> S"
    using a c by (simp add: S_def)
  have t: "0 \<le> t"
    using c d by (simp add: t_def)
  have A1: "1 + u \<le> A"
    unfolding A_def using u by (intro self_le_power) simp_all
  have A: "1 \<le> A"
    using A1 u by simp
  have B0: "0 \<le> B"
    unfolding B_def using u by simp
  have B1: "B \<le> 1 - u"
    unfolding B_def using u power_decreasing [of 1 "length ds + 1" "1 - u"] by simp
  have cap': "(1 + u) * A * (S + t + 2 * (K + 1) * h) \<le> pow2 1023"
  proof -
    have "(1 + u) * A * (S + t + 2 * (K + 1) * h)
            = (1 + pow2 (- 53)) ^ (length (ds @ [d]) + 1)
              * (a + c * sum_list (ds @ [d]) + 2 * of_nat (length (ds @ [d])) * pow2 (- 1075))"
      by (simp add: A_def S_def t_def K_def u_def h_def algebra_simps)
    with snoc.prems(2) show ?thesis
      by simp
  qed
  have step1: "A * (S + t + (2 * K + 1) * h) \<le> (1 + u) * A * (S + t + 2 * (K + 1) * h)"
  proof -
    have "A * (S + t + (2 * K + 1) * h) \<le> A * (S + t + 2 * (K + 1) * h)"
      using A h by (intro mult_left_mono) (simp_all add: algebra_simps)
    also have "\<dots> \<le> (1 + u) * (A * (S + t + 2 * (K + 1) * h))"
      using A u S t K h by (intro mult_right_mono [of 1 "1 + u", simplified]) simp_all
    finally show ?thesis
      by (simp add: mult.assoc)
  qed
  have cap: "A * (S + 2 * K * h) \<le> pow2 1023"
  proof -
    have "A * (S + 2 * K * h) \<le> A * (S + t + (2 * K + 1) * h)"
      using A t h by (intro mult_left_mono) (simp_all add: algebra_simps)
    with step1 cap' show ?thesis
      by simp
  qed
  from snoc.IH [OF ds] cap
  obtain y0 where y0: "foldl (\<lambda>x d. js_add x (js_mul d (Fin c))) (Fin a) (map Fin ds) = Fin y0"
    and y0_nonneg: "0 \<le> y0"
    and y0_lo: "B * S - 2 * K * h \<le> y0"
    and y0_hi: "y0 \<le> A * (S + 2 * K * h)"
    by (auto simp: A_def B_def S_def K_def u_def h_def)
  have "t \<le> A * (S + t + (2 * K + 1) * h)"
  proof -
    have "t \<le> S + t + (2 * K + 1) * h"
      using S K h by simp
    also have "\<dots> \<le> A * (S + t + (2 * K + 1) * h)"
      using A S t K h by (intro mult_right_mono [of 1 A, simplified]) simp_all
    finally show ?thesis .
  qed
  with step1 cap' have t_small: "t \<le> pow2 1023"
    by simp
  from round_to_double_near [OF t t_small]
  obtain p where p: "round_to_double t = Fin p" and p_nonneg: "0 \<le> p"
    and p_err: "\<bar>p - t\<bar> \<le> u * t + h"
    by (auto simp: u_def h_def)
  have At: "(1 + u) * t \<le> A * t"
    using A1 t by (intro mult_right_mono) simp_all
  have Ah: "h \<le> A * h"
    using A h by (intro mult_right_mono [of 1 A, simplified]) simp_all
  have x_hi: "y0 + p \<le> A * (S + t + (2 * K + 1) * h)"
  proof -
    have "p \<le> (1 + u) * t + h"
      using p_err by (simp add: abs_le_iff algebra_simps)
    with At Ah y0_hi have "y0 + p \<le> A * (S + 2 * K * h) + A * t + A * h"
      by linarith
    also have "\<dots> = A * (S + t + (2 * K + 1) * h)"
      by (simp add: algebra_simps)
    finally show ?thesis .
  qed
  have x_nonneg: "0 \<le> y0 + p"
    using y0_nonneg p_nonneg by simp
  have x_small: "y0 + p \<le> pow2 1023"
    using x_hi step1 cap' by simp
  from round_to_double_near [OF x_nonneg x_small]
  obtain y where y: "round_to_double (y0 + p) = Fin y" and y_nonneg: "0 \<le> y"
    and y_err: "\<bar>y - (y0 + p)\<bar> \<le> u * (y0 + p) + h"
    by (auto simp: u_def h_def)
  have run: "foldl (\<lambda>x d. js_add x (js_mul d (Fin c))) (Fin a) (map Fin (ds @ [d])) = Fin y"
    using y0 p y by (simp add: t_def)
  have hi: "y \<le> (1 + u) * A * (S + t + 2 * (K + 1) * h)"
  proof -
    have 1: "y \<le> (1 + u) * (y0 + p) + h"
      using y_err by (simp add: abs_le_iff algebra_simps)
    have 2: "(1 + u) * (y0 + p) \<le> (1 + u) * (A * (S + t + (2 * K + 1) * h))"
      using x_hi u by (intro mult_left_mono) simp_all
    have "1 * 1 \<le> (1 + u) * A"
      using A u by (intro mult_mono) simp_all
    then have 3: "h \<le> (1 + u) * A * h"
      using h mult_right_mono [of 1 "(1 + u) * A" h] by simp
    from 1 2 3 have "y \<le> (1 + u) * (A * (S + t + (2 * K + 1) * h)) + (1 + u) * A * h"
      by linarith
    also have "\<dots> = (1 + u) * A * (S + t + 2 * (K + 1) * h)"
      by (simp add: algebra_simps)
    finally show ?thesis .
  qed
  have lo: "(1 - u) * B * (S + t) - 2 * (K + 1) * h \<le> y"
  proof -
    have Bt: "B * t \<le> (1 - u) * t"
      using B1 t by (intro mult_right_mono) simp_all
    have "(1 - u) * t - h \<le> p"
      using p_err by (simp add: abs_le_iff algebra_simps)
    with Bt y0_lo have x_lo: "B * (S + t) - (2 * K + 1) * h \<le> y0 + p"
      by (simp add: algebra_simps)
    have "(1 - u) * (B * (S + t) - (2 * K + 1) * h) \<le> (1 - u) * (y0 + p)"
      using x_lo u by (intro mult_left_mono) simp_all
    moreover have "(1 - u) * ((2 * K + 1) * h) \<le> (2 * K + 1) * h"
      using u K h by (intro mult_left_le_one_le) simp_all
    moreover have "(1 - u) * (y0 + p) - h \<le> y"
      using y_err by (simp add: abs_le_iff algebra_simps)
    ultimately show ?thesis
      by (simp add: algebra_simps)
  qed
  have "(1 - u) * B * (S + t) - 2 * (K + 1) * h
          = (1 - pow2 (- 53)) ^ (length (ds @ [d]) + 1) * (a + c * sum_list (ds @ [d]))
            - 2 * of_nat (length (ds @ [d])) * pow2 (- 1075)"
    by (simp add: B_def S_def t_def K_def u_def h_def algebra_simps)
  moreover have "(1 + u) * A * (S + t + 2 * (K + 1) * h)
          = (1 + pow2 (- 53)) ^ (length (ds @ [d]) + 1)
            * (a + c * sum_list (ds @ [d]) + 2 * of_nat (length (ds @ [d])) * pow2 (- 1075))"
    by (simp add: A_def S_def t_def K_def u_def h_def algebra_simps)
  ultimately show ?case
    using run y_nonneg lo hi by (intro exI [of _ y]) (simp only: simp_thms)
qed

lemma accumulate_tolerance:
  assumes c: "0 \<le> c" and ord: "ordinary_frames c a ds"
  shows "\<exists>y. foldl (\<lambda>x d. js_add x (js_mul d (Fin c))) (Fin a) (map Fin ds) = Fin y
           \<and> \<bar>y - (a + c * sum_list ds)\<bar>
               \<le> rotation_tolerance (length ds) (a + c * sum_list ds)"
proof -
  define u where "u = pow2 (- 53)"
  define h where "h = pow2 (- 1075)"
  define N :: rat where "N = of_nat (length ds)"
  define M :: rat where "M = of_nat (length ds + 1)"
  define S where "S = a + c * sum_list ds"
  define A where "A = (1 + u) ^ (length ds + 1)"
  define B where "B = (1 - u) ^ (length ds + 1)"
  from ord have a: "0 \<le> a" and ds: "list_all (\<lambda>d. 0 \<le> d) ds"
    and len: "length ds < 2 ^ 52" and S_small: "S \<le> pow2 1000"
    by (simp_all add: ordinary_frames_def S_def)
  have u: "0 \<le> u" "u \<le> 1" and h: "0 \<le> h"
    by (simp_all add: u_def h_def pow2_def)
  have "0 \<le> sum_list ds"
    using ds by (intro sum_list_nonneg) (simp add: list_all_iff)
  then have S: "0 \<le> S"
    using a c by (simp add: S_def)
  have N: "0 \<le> N" and NM: "N \<le> M"
    by (simp_all add: N_def M_def)
  have "length ds + 1 \<le> 2 ^ 52"
    using len by simp
  then have "(of_nat (length ds + 1) :: rat) \<le> of_nat (2 ^ 52)"
    by (simp only: of_nat_le_iff)
  then have M_small: "M \<le> 2 ^ 52"
    by (simp add: M_def)
  have "M * u \<le> 2 ^ 52 * u"
    using M_small u by (intro mult_right_mono) simp_all
  also have "\<dots> = 1 / 2"
    by (simp add: u_def pow2_def)
  finally have Mu: "M * u \<le> 1 / 2" .
  have A_hi: "A \<le> 1 + 2 * M * u"
    unfolding A_def M_def using u(1) Mu [unfolded M_def] by (rule power_upper)
  then have A2: "A \<le> 2"
    using Mu by simp
  have A0: "0 \<le> A"
    unfolding A_def using u by simp
  have B_lo: "1 - M * u \<le> B"
    unfolding B_def M_def using u by (rule power_lower)
  have Nh: "2 * N * h \<le> pow2 (- 1022)"
  proof -
    have "N \<le> 2 ^ 52"
      using NM M_small by simp
    then have "N * h \<le> 2 ^ 52 * h"
      using h by (intro mult_right_mono) simp_all
    then show ?thesis
      by (simp add: h_def pow2_def)
  qed
  have cap: "A * (S + 2 * N * h) \<le> pow2 1023"
  proof -
    have "A * (S + 2 * N * h) \<le> 2 * (S + 2 * N * h)"
      using A2 S N h by (intro mult_right_mono) simp_all
    also have "\<dots> \<le> 2 * (pow2 1000 + pow2 (- 1022))"
      using S_small Nh by simp
    also have "\<dots> \<le> pow2 1023"
      by (simp add: pow2_def)
    finally show ?thesis .
  qed
  from accumulate_near [OF c a ds] cap
  obtain y where run: "foldl (\<lambda>x d. js_add x (js_mul d (Fin c))) (Fin a) (map Fin ds) = Fin y"
    and lo: "B * S - 2 * N * h \<le> y" and hi: "y \<le> A * (S + 2 * N * h)"
    by (auto simp: A_def B_def S_def N_def u_def h_def)
  have AS: "A * S \<le> S + 2 * M * u * S"
    using A_hi S mult_right_mono [of A "1 + 2 * M * u" S] by (simp add: algebra_simps)
  have ANh: "A * (N * h) \<le> 2 * (M * h)"
  proof -
    have "A * (N * h) \<le> 2 * (N * h)"
      using A2 N h by (intro mult_right_mono) simp_all
    also have "N * h \<le> M * h"
      using NM h by (intro mult_right_mono) simp_all
    finally show ?thesis
      by simp
  qed
  have BS: "S - M * u * S \<le> B * S"
    using B_lo S mult_right_mono [of "1 - M * u" B S] by (simp add: algebra_simps)
  have NhM: "N * h \<le> M * h"
    using NM h by (intro mult_right_mono) simp_all
  have MuS: "0 \<le> M * u * S"
    using NM N u S by simp
  have Mh: "0 \<le> M * h"
    using NM N h by simp
  have up: "y - S \<le> M * (2 * u * S + 4 * h)"
  proof -
    have "y \<le> A * S + 2 * (A * (N * h))"
      using hi by (simp add: algebra_simps)
    with AS ANh have "y \<le> S + 2 * M * u * S + 4 * (M * h)"
      by linarith
    then show ?thesis
      by (simp add: algebra_simps)
  qed
  have down: "S - y \<le> M * (2 * u * S + 4 * h)"
  proof -
    from lo BS NhM have "S - y \<le> M * u * S + 2 * (M * h)"
      by (simp add: algebra_simps)
    with MuS Mh have "S - y \<le> 2 * (M * u * S) + 4 * (M * h)"
      by linarith
    then show ?thesis
      by (simp add: algebra_simps)
  qed
  have "2 * u = pow2 (- 52)" and "4 * h = pow2 (- 1073)"
    by (simp_all add: u_def h_def pow2_def)
  then have "rotation_tolerance (length ds) S = M * (2 * u * S + 4 * h)"
    by (simp add: rotation_tolerance_def M_def)
  with up down have "\<bar>y - S\<bar> \<le> rotation_tolerance (length ds) S"
    by (simp add: abs_le_iff)
  with run show ?thesis
    unfolding S_def by (intro exI [of _ y]) simp
qed

lemma rates:
  "double_of (1 / 2) = 1 / 2" "double_of (1 / 4) = 1 / 4"
  "double_of (3 / 10) = 5404319552844595 / 18014398509481984"
  "double_of (3 / 20) = 5404319552844595 / 36028797018963968"
  by (simp_all add: double_of_def round_3_10 round_1_2 round_1_4 round_3_20)

lemma rates_near:
  "\<bar>double_of 0.3 - 3 / 10\<bar> \<le> pow2 (- 56)" "double_of 0.5 = 1 / 2"
  "double_of 0.25 = 1 / 4" "\<bar>double_of 0.15 - 3 / 20\<bar> \<le> pow2 (- 57)"
  by (simp_all add: rates pow2_def)

lemma rates_nonneg:
  "0 \<le> double_of 0.3" "0 \<le> double_of 0.5" "0 \<le> double_of 0.25" "0 \<le> double_of 0.15"
  by (simp_all add: rates)

lemma two_runs_near:
  assumes c: "0 \<le> c" and ds: "ordinary_frames c a ds" and es: "ordinary_frames c a es"
    and same: "sum_list ds = sum_list es"
  shows "\<exists>y z. foldl (\<lambda>x d. js_add x (js_mul d (Fin c))) (Fin a) (map Fin ds) = Fin y
           \<and> foldl (\<lambda>x d. js_add x (js_mul d (Fin c))) (Fin a) (map Fin es) = Fin z
           \<and> \<bar>y - (a + c * sum_list ds)\<bar>
               \<le> rotation_tolerance (length ds) (a + c * sum_list ds)
           \<and> \<bar>y - z\<bar>
               \<le> rotation_tolerance (length ds) (a + c * sum_list ds)
                 + rotation_tolerance (length es) (a + c * sum_list ds)"
proof -
  from accumulate_tolerance [OF c ds]
  obtain y where y: "foldl (\<lambda>x d. js_add x (js_mul d (Fin c))) (Fin a) (map Fin ds) = Fin y"
    and ye: "\<bar>y - (a + c * sum_list ds)\<bar>
               \<le> rotation_tolerance (length ds) (a + c * sum_list ds)"
    by blast
  from accumulate_tolerance [OF c es]
  obtain z where z: "foldl (\<lambda>x d. js_add x (js_mul d (Fin c))) (Fin a) (map Fin es) = Fin z"
    and ze: "\<bar>z - (a + c * sum_list ds)\<bar>
               \<le> rotation_tolerance (length es) (a + c * sum_list ds)"
    unfolding same by blast
  from ye ze have "\<bar>y - z\<bar>
      \<le> rotation_tolerance (length ds) (a + c * sum_list ds)
        + rotation_tolerance (length es) (a + c * sum_list ds)"
    by linarith
  with y z ye show ?thesis
    by blast
qed

lemma tetra_x_split:
  "rot_x (frames SpinningTetra_useFrame (map Fin [3 / 64, 4 / 64])
            \<lparr>rot_x = Fin 0, rot_y = Fin 0, rot_z = Fin 0\<rparr>)
     \<noteq> rot_x (frames SpinningTetra_useFrame (map Fin [7 / 64])
              \<lparr>rot_x = Fin 0, rot_y = Fin 0, rot_z = Fin 0\<rparr>)"
  by (simp add: SpinningTetra_useFrame_def js_lit_def round_3_10 round_1_2 Let_def)
     (simp add: double_eval)

lemma ordinary_split:
  "ordinary_frames (double_of 0.3) 0 [3 / 64, 4 / 64]"
  "ordinary_frames (double_of 0.3) 0 [7 / 64]"
  "ordinary_frames (double_of 0.5) 0 [3 / 64, 4 / 64]"
  "ordinary_frames (double_of 0.5) 0 [7 / 64]"
  "ordinary_frames (double_of 0.25) 0 [3 / 64, 4 / 64]"
  "ordinary_frames (double_of 0.25) 0 [7 / 64]"
  "ordinary_frames (double_of 0.15) 0 [3 / 64, 4 / 64]"
  "ordinary_frames (double_of 0.15) 0 [7 / 64]"
  by (simp_all add: ordinary_frames_def rates pow2_def)

text \<open>
  C7, amended. Each per-frame update adds to an angle the product of the elapsed time and
  a fixed rate, in double arithmetic (a tetrahedron: 0.3 about x and 0.5 about y, z kept;
  the knot: 0.25 about x and 0.15 about z, y kept; the rates are the doubles nearest to
  these decimals, 0.5 and 0.25 themselves). Over ordinary frames the accumulated angle is
  finite and within the tolerance of the starting angle plus the rate times the total
  elapsed time: at most \<open>n + 1\<close> times \<open>pow2 (- 52)\<close> of that angle (and \<open>pow2 (- 1073)\<close>)
  after \<open>n\<close> frames. So two runs of frames of the same total elapsed time leave the angle
  within the sum of their tolerances of each other; they need not leave it equal, since
  there are two such runs from rotation 0 that do not.
\<close>

theorem rotation_is_rate_times_elapsed_up_to_rounding:
  "rot_x (SpinningTetra_useFrame d r) = js_add (rot_x r) (js_mul d (js_lit 0.3))
   \<and> rot_y (SpinningTetra_useFrame d r) = js_add (rot_y r) (js_mul d (js_lit 0.5))
   \<and> rot_z (SpinningTetra_useFrame d r) = rot_z r
   \<and> rot_x (FloatingKnot_useFrame d r) = js_add (rot_x r) (js_mul d (js_lit 0.25))
   \<and> rot_z (FloatingKnot_useFrame d r) = js_add (rot_z r) (js_mul d (js_lit 0.15))
   \<and> rot_y (FloatingKnot_useFrame d r) = rot_y r
   \<and> rot_z (frames SpinningTetra_useFrame fs r) = rot_z r
   \<and> rot_y (frames FloatingKnot_useFrame fs r) = rot_y r
   \<and> \<bar>double_of 0.3 - 3 / 10\<bar> \<le> pow2 (- 56)
   \<and> double_of 0.5 = 1 / 2
   \<and> double_of 0.25 = 1 / 4
   \<and> \<bar>double_of 0.15 - 3 / 20\<bar> \<le> pow2 (- 57)
   \<and> (rot_x r = Fin a \<and> ordinary_frames (double_of 0.3) a ds
        \<and> ordinary_frames (double_of 0.3) a es \<and> sum_list ds = sum_list es \<longrightarrow>
        (\<exists>y z. rot_x (frames SpinningTetra_useFrame (map Fin ds) r) = Fin y
           \<and> rot_x (frames SpinningTetra_useFrame (map Fin es) r) = Fin z
           \<and> \<bar>y - (a + double_of 0.3 * sum_list ds)\<bar>
               \<le> rotation_tolerance (length ds) (a + double_of 0.3 * sum_list ds)
           \<and> \<bar>y - z\<bar>
               \<le> rotation_tolerance (length ds) (a + double_of 0.3 * sum_list ds)
                 + rotation_tolerance (length es) (a + double_of 0.3 * sum_list ds)))
   \<and> (rot_y r = Fin a \<and> ordinary_frames (double_of 0.5) a ds
        \<and> ordinary_frames (double_of 0.5) a es \<and> sum_list ds = sum_list es \<longrightarrow>
        (\<exists>y z. rot_y (frames SpinningTetra_useFrame (map Fin ds) r) = Fin y
           \<and> rot_y (frames SpinningTetra_useFrame (map Fin es) r) = Fin z
           \<and> \<bar>y - (a + double_of 0.5 * sum_list ds)\<bar>
               \<le> rotation_tolerance (length ds) (a + double_of 0.5 * sum_list ds)
           \<and> \<bar>y - z\<bar>
               \<le> rotation_tolerance (length ds) (a + double_of 0.5 * sum_list ds)
                 + rotation_tolerance (length es) (a + double_of 0.5 * sum_list ds)))
   \<and> (rot_x r = Fin a \<and> ordinary_frames (double_of 0.25) a ds
        \<and> ordinary_frames (double_of 0.25) a es \<and> sum_list ds = sum_list es \<longrightarrow>
        (\<exists>y z. rot_x (frames FloatingKnot_useFrame (map Fin ds) r) = Fin y
           \<and> rot_x (frames FloatingKnot_useFrame (map Fin es) r) = Fin z
           \<and> \<bar>y - (a + double_of 0.25 * sum_list ds)\<bar>
               \<le> rotation_tolerance (length ds) (a + double_of 0.25 * sum_list ds)
           \<and> \<bar>y - z\<bar>
               \<le> rotation_tolerance (length ds) (a + double_of 0.25 * sum_list ds)
                 + rotation_tolerance (length es) (a + double_of 0.25 * sum_list ds)))
   \<and> (rot_z r = Fin a \<and> ordinary_frames (double_of 0.15) a ds
        \<and> ordinary_frames (double_of 0.15) a es \<and> sum_list ds = sum_list es \<longrightarrow>
        (\<exists>y z. rot_z (frames FloatingKnot_useFrame (map Fin ds) r) = Fin y
           \<and> rot_z (frames FloatingKnot_useFrame (map Fin es) r) = Fin z
           \<and> \<bar>y - (a + double_of 0.15 * sum_list ds)\<bar>
               \<le> rotation_tolerance (length ds) (a + double_of 0.15 * sum_list ds)
           \<and> \<bar>y - z\<bar>
               \<le> rotation_tolerance (length ds) (a + double_of 0.15 * sum_list ds)
                 + rotation_tolerance (length es) (a + double_of 0.15 * sum_list ds)))
   \<and> (\<exists>xs ys. sum_list xs = sum_list ys
         \<and> ordinary_frames (double_of 0.3) 0 xs \<and> ordinary_frames (double_of 0.3) 0 ys
         \<and> rot_x (frames SpinningTetra_useFrame (map Fin xs)
                    \<lparr>rot_x = Fin 0, rot_y = Fin 0, rot_z = Fin 0\<rparr>)
             \<noteq> rot_x (frames SpinningTetra_useFrame (map Fin ys)
                      \<lparr>rot_x = Fin 0, rot_y = Fin 0, rot_z = Fin 0\<rparr>))"
proof -
  have one: "rot_x (SpinningTetra_useFrame d r) = js_add (rot_x r) (js_mul d (js_lit 0.3))
     \<and> rot_y (SpinningTetra_useFrame d r) = js_add (rot_y r) (js_mul d (js_lit 0.5))
     \<and> rot_z (SpinningTetra_useFrame d r) = rot_z r
     \<and> rot_x (FloatingKnot_useFrame d r) = js_add (rot_x r) (js_mul d (js_lit 0.25))
     \<and> rot_z (FloatingKnot_useFrame d r) = js_add (rot_z r) (js_mul d (js_lit 0.15))
     \<and> rot_y (FloatingKnot_useFrame d r) = rot_y r
     \<and> rot_z (frames SpinningTetra_useFrame fs r) = rot_z r
     \<and> rot_y (frames FloatingKnot_useFrame fs r) = rot_y r"
    by (simp add: SpinningTetra_useFrame_def FloatingKnot_useFrame_def Let_def tetra_z_kept
        knot_y_kept)
  have lit: "\<bar>double_of 0.3 - 3 / 10\<bar> \<le> pow2 (- 56) \<and> double_of 0.5 = 1 / 2
     \<and> double_of 0.25 = 1 / 4 \<and> \<bar>double_of 0.15 - 3 / 20\<bar> \<le> pow2 (- 57)"
    using rates_near by simp
  have tx: "\<exists>y z. rot_x (frames SpinningTetra_useFrame (map Fin ds) r) = Fin y
           \<and> rot_x (frames SpinningTetra_useFrame (map Fin es) r) = Fin z
           \<and> \<bar>y - (a + double_of 0.3 * sum_list ds)\<bar>
               \<le> rotation_tolerance (length ds) (a + double_of 0.3 * sum_list ds)
           \<and> \<bar>y - z\<bar>
               \<le> rotation_tolerance (length ds) (a + double_of 0.3 * sum_list ds)
                 + rotation_tolerance (length es) (a + double_of 0.3 * sum_list ds)"
    if "rot_x r = Fin a" "ordinary_frames (double_of 0.3) a ds"
      "ordinary_frames (double_of 0.3) a es" "sum_list ds = sum_list es"
    unfolding tetra_x_fold js_lit_03 that(1)
    by (rule two_runs_near [OF rates_nonneg(1) that(2,3,4)])
  have ty: "\<exists>y z. rot_y (frames SpinningTetra_useFrame (map Fin ds) r) = Fin y
           \<and> rot_y (frames SpinningTetra_useFrame (map Fin es) r) = Fin z
           \<and> \<bar>y - (a + double_of 0.5 * sum_list ds)\<bar>
               \<le> rotation_tolerance (length ds) (a + double_of 0.5 * sum_list ds)
           \<and> \<bar>y - z\<bar>
               \<le> rotation_tolerance (length ds) (a + double_of 0.5 * sum_list ds)
                 + rotation_tolerance (length es) (a + double_of 0.5 * sum_list ds)"
    if "rot_y r = Fin a" "ordinary_frames (double_of 0.5) a ds"
      "ordinary_frames (double_of 0.5) a es" "sum_list ds = sum_list es"
    unfolding tetra_y_fold js_lit_05 that(1)
    by (rule two_runs_near [OF rates_nonneg(2) that(2,3,4)])
  have kx: "\<exists>y z. rot_x (frames FloatingKnot_useFrame (map Fin ds) r) = Fin y
           \<and> rot_x (frames FloatingKnot_useFrame (map Fin es) r) = Fin z
           \<and> \<bar>y - (a + double_of 0.25 * sum_list ds)\<bar>
               \<le> rotation_tolerance (length ds) (a + double_of 0.25 * sum_list ds)
           \<and> \<bar>y - z\<bar>
               \<le> rotation_tolerance (length ds) (a + double_of 0.25 * sum_list ds)
                 + rotation_tolerance (length es) (a + double_of 0.25 * sum_list ds)"
    if "rot_x r = Fin a" "ordinary_frames (double_of 0.25) a ds"
      "ordinary_frames (double_of 0.25) a es" "sum_list ds = sum_list es"
    unfolding knot_x_fold js_lit_025 that(1)
    by (rule two_runs_near [OF rates_nonneg(3) that(2,3,4)])
  have kz: "\<exists>y z. rot_z (frames FloatingKnot_useFrame (map Fin ds) r) = Fin y
           \<and> rot_z (frames FloatingKnot_useFrame (map Fin es) r) = Fin z
           \<and> \<bar>y - (a + double_of 0.15 * sum_list ds)\<bar>
               \<le> rotation_tolerance (length ds) (a + double_of 0.15 * sum_list ds)
           \<and> \<bar>y - z\<bar>
               \<le> rotation_tolerance (length ds) (a + double_of 0.15 * sum_list ds)
                 + rotation_tolerance (length es) (a + double_of 0.15 * sum_list ds)"
    if "rot_z r = Fin a" "ordinary_frames (double_of 0.15) a ds"
      "ordinary_frames (double_of 0.15) a es" "sum_list ds = sum_list es"
    unfolding knot_z_fold js_lit_015 that(1)
    by (rule two_runs_near [OF rates_nonneg(4) that(2,3,4)])
  have split: "\<exists>xs ys. sum_list xs = sum_list ys
         \<and> ordinary_frames (double_of 0.3) 0 xs \<and> ordinary_frames (double_of 0.3) 0 ys
         \<and> rot_x (frames SpinningTetra_useFrame (map Fin xs)
                    \<lparr>rot_x = Fin 0, rot_y = Fin 0, rot_z = Fin 0\<rparr>)
             \<noteq> rot_x (frames SpinningTetra_useFrame (map Fin ys)
                      \<lparr>rot_x = Fin 0, rot_y = Fin 0, rot_z = Fin 0\<rparr>)"
    using tetra_x_split ordinary_split(1,2)
    by (intro exI [of _ "[3 / 64, 4 / 64]"] exI [of _ "[7 / 64]"]) simp
  from one lit tx ty kx kz split show ?thesis
    by blast
qed

theorem rotation_is_rate_times_elapsed_up_to_rounding_witness:
  "ordinary_frames (double_of 0.3) 0 [3 / 64, 4 / 64]
   \<and> ordinary_frames (double_of 0.3) 0 [7 / 64]
   \<and> ordinary_frames (double_of 0.5) 0 [3 / 64, 4 / 64]
   \<and> ordinary_frames (double_of 0.5) 0 [7 / 64]
   \<and> ordinary_frames (double_of 0.25) 0 [3 / 64, 4 / 64]
   \<and> ordinary_frames (double_of 0.25) 0 [7 / 64]
   \<and> ordinary_frames (double_of 0.15) 0 [3 / 64, 4 / 64]
   \<and> ordinary_frames (double_of 0.15) 0 [7 / 64]
   \<and> sum_list [3 / 64, 4 / 64] = sum_list [7 / 64 :: rat]
   \<and> (\<exists>y z. rot_x (frames SpinningTetra_useFrame [Fin (3 / 64), Fin (4 / 64)]
                      \<lparr>rot_x = Fin 0, rot_y = Fin 0, rot_z = Fin 0\<rparr>) = Fin y
         \<and> rot_x (frames SpinningTetra_useFrame [Fin (7 / 64)]
                    \<lparr>rot_x = Fin 0, rot_y = Fin 0, rot_z = Fin 0\<rparr>) = Fin z
         \<and> \<bar>y - double_of 0.3 * (7 / 64)\<bar>
             \<le> rotation_tolerance 2 (double_of 0.3 * (7 / 64))
         \<and> \<bar>y - z\<bar> \<le> rotation_tolerance 2 (double_of 0.3 * (7 / 64))
                       + rotation_tolerance 1 (double_of 0.3 * (7 / 64)))
   \<and> (\<exists>y z. rot_y (frames SpinningTetra_useFrame [Fin (3 / 64), Fin (4 / 64)]
                      \<lparr>rot_x = Fin 0, rot_y = Fin 0, rot_z = Fin 0\<rparr>) = Fin y
         \<and> rot_y (frames SpinningTetra_useFrame [Fin (7 / 64)]
                    \<lparr>rot_x = Fin 0, rot_y = Fin 0, rot_z = Fin 0\<rparr>) = Fin z
         \<and> \<bar>y - double_of 0.5 * (7 / 64)\<bar>
             \<le> rotation_tolerance 2 (double_of 0.5 * (7 / 64))
         \<and> \<bar>y - z\<bar> \<le> rotation_tolerance 2 (double_of 0.5 * (7 / 64))
                       + rotation_tolerance 1 (double_of 0.5 * (7 / 64)))
   \<and> (\<exists>y z. rot_x (frames FloatingKnot_useFrame [Fin (3 / 64), Fin (4 / 64)]
                      \<lparr>rot_x = Fin 0, rot_y = Fin 0, rot_z = Fin 0\<rparr>) = Fin y
         \<and> rot_x (frames FloatingKnot_useFrame [Fin (7 / 64)]
                    \<lparr>rot_x = Fin 0, rot_y = Fin 0, rot_z = Fin 0\<rparr>) = Fin z
         \<and> \<bar>y - double_of 0.25 * (7 / 64)\<bar>
             \<le> rotation_tolerance 2 (double_of 0.25 * (7 / 64))
         \<and> \<bar>y - z\<bar> \<le> rotation_tolerance 2 (double_of 0.25 * (7 / 64))
                       + rotation_tolerance 1 (double_of 0.25 * (7 / 64)))
   \<and> (\<exists>y z. rot_z (frames FloatingKnot_useFrame [Fin (3 / 64), Fin (4 / 64)]
                      \<lparr>rot_x = Fin 0, rot_y = Fin 0, rot_z = Fin 0\<rparr>) = Fin y
         \<and> rot_z (frames FloatingKnot_useFrame [Fin (7 / 64)]
                    \<lparr>rot_x = Fin 0, rot_y = Fin 0, rot_z = Fin 0\<rparr>) = Fin z
         \<and> \<bar>y - double_of 0.15 * (7 / 64)\<bar>
             \<le> rotation_tolerance 2 (double_of 0.15 * (7 / 64))
         \<and> \<bar>y - z\<bar> \<le> rotation_tolerance 2 (double_of 0.15 * (7 / 64))
                       + rotation_tolerance 1 (double_of 0.15 * (7 / 64)))"
proof -
  let ?z = "\<lparr>rot_x = Fin 0, rot_y = Fin 0, rot_z = Fin 0\<rparr>"
  note t = rotation_is_rate_times_elapsed_up_to_rounding
    [where d = "Fin 0" and r = ?z and fs = "[]" and a = 0 and ds = "[3 / 64, 4 / 64]"
      and es = "[7 / 64]"]
  have s: "sum_list [3 / 64, 4 / 64] = sum_list [7 / 64 :: rat]"
    by simp
  have l: "length [3 / 64, 4 / 64 :: rat] = 2" "length [7 / 64 :: rat] = 1"
    by simp_all
  have m: "map Fin [3 / 64, 4 / 64] = [Fin (3 / 64), Fin (4 / 64)]"
    "map Fin [7 / 64] = [Fin (7 / 64)]"
    by simp_all
  have v: "(0::rat) + c * sum_list [3 / 64, 4 / 64] = c * (7 / 64)" for c
    by simp
  have r: "rot_x ?z = Fin 0" "rot_y ?z = Fin 0" "rot_z ?z = Fin 0"
    by simp_all
  from t ordinary_split s r show ?thesis
    unfolding l m v by blast
qed

section \<open>Properties that rest on the services\<close>

subsection \<open>Browser validation\<close>

lemma controls_valid_iff:
  "list_all2 (control_valid ok) (form_controls (ContactForm st)) [n, e, s, m]
     = (n \<noteq> [] \<and> e \<noteq> [] \<and> ok e \<and> m \<noteq> [])"
  unfolding ContactForm_controls
  by (auto simp add: control_valid_def is_required_def control_type_def attr_def)

lemma valid_submission_delivered:
  "n \<noteq> [] \<Longrightarrow> e \<noteq> [] \<Longrightarrow> well_formed e \<Longrightarrow> m \<noteq> []
   \<Longrightarrow> sent (browser_submit well_formed [n, e, s, m] st)"
  unfolding browser_submit_def controls_valid_iff
  by (simp add: onSubmit_def setSent_def)

text \<open>
  C2. A submit action on a form whose name, email or message is empty, or whose email is
  not well formed, is blocked by the browser: the event does not reach the handler and the
  state is what it was (so \<open>sent\<close> stays \<open>False\<close> on a form that was not sent). The subject
  is free.
\<close>

theorem invalid_submission_blocked:
  assumes "n = [] \<or> e = [] \<or> m = [] \<or> \<not> well_formed e"
  shows "browser_submit well_formed [n, e, s, m] st = st"
  using assms unfolding browser_submit_def controls_valid_iff by auto

theorem invalid_submission_blocked_witness:
  "\<not> (\<lambda>v. CHR ''@'' \<in> set v) ''not-an-email''
   \<and> browser_submit (\<lambda>v. CHR ''@'' \<in> set v) [''Ada'', ''not-an-email'', '''', ''Hello'']
         ContactForm_init = ContactForm_init
   \<and> sent (browser_submit (\<lambda>v. CHR ''@'' \<in> set v) [''Ada'', ''not-an-email'', '''', ''Hello'']
         ContactForm_init) = False"
  using invalid_submission_blocked
    [of "''Ada''" "''not-an-email''" "''Hello''" "\<lambda>v. CHR ''@'' \<in> set v" "''''" ContactForm_init]
  by (simp add: ContactForm_init_def)

subsection \<open>Entrance animations\<close>

lemma inview_not_observing: "\<not> observing s \<Longrightarrow> inview_run n evs s = s"
  by (induction evs) (simp_all add: inview_step_def)

lemma inview_run_once:
  assumes "viewport_once b" and "attr b ''whileInView'' = Some w"
  shows "inview_run b evs (inview_mount b) =
           (if EnterViewport \<in> set evs
            then \<lparr>pose = Some w, plays = 1, in_view = True, observing = False\<rparr>
            else inview_mount b)"
proof (induction evs)
  case Nil
  then show ?case by simp
next
  case (Cons ev evs)
  show ?case
  proof (cases ev)
    case EnterViewport
    have "inview_step b ev (inview_mount b) =
            \<lparr>pose = Some w, plays = 1, in_view = True, observing = False\<rparr>"
      using assms EnterViewport by (simp add: inview_step_def inview_mount_def)
    then show ?thesis
      using EnterViewport by (simp add: inview_not_observing)
  next
    case LeaveViewport
    have "inview_step b ev (inview_mount b) = inview_mount b"
      using LeaveViewport by (simp add: inview_step_def inview_mount_def)
    then show ?thesis
      using Cons.IH LeaveViewport by simp
  qed
qed

lemma Section_blocks:
  "map tag_of (kids (Section i t k cs)) = [''motion.h2'', ''motion.div'']"
  by (simp add: Section_def kids_def tag_of_def)

lemma Section_block_props:
  "b \<in> set (kids (Section i t k cs)) \<Longrightarrow>
     viewport_once b
     \<and> attr b ''initial'' = Some (JObj [(''opacity'', JNum (js_lit 0)), (''y'', JNum (js_lit 12))])
     \<and> attr b ''whileInView'' = Some (JObj [(''opacity'', JNum (js_lit 1)), (''y'', JNum (js_lit 0))])"
  by (auto simp add: Section_def kids_def viewport_once_def attr_def)

text \<open>
  The model does replay an animation that is not asked to play once: a block with the same
  poses and no \<^verbatim>\<open>viewport\<close> prop plays twice when it is scrolled in, out and in again.
\<close>

lemma inview_replays_without_once:
  "plays (inview_run
            (El ''motion.div''
               [(''initial'', JObj [(''opacity'', JNum (js_lit 0)), (''y'', JNum (js_lit 12))]),
                (''whileInView'', JObj [(''opacity'', JNum (js_lit 1)), (''y'', JNum (js_lit 0))])] [])
            [EnterViewport, LeaveViewport, EnterViewport]
            (inview_mount
               (El ''motion.div''
                  [(''initial'', JObj [(''opacity'', JNum (js_lit 0)), (''y'', JNum (js_lit 12))]),
                   (''whileInView'', JObj [(''opacity'', JNum (js_lit 1)), (''y'', JNum (js_lit 0))])] []))) = 2"
  by (simp add: inview_step_def inview_mount_def viewport_once_def attr_def)

text \<open>
  C3. For each of the two blocks of a section (the heading \<^verbatim>\<open>motion.h2\<close> and the content
  \<^verbatim>\<open>motion.div\<close>) and every sequence of viewport events, the entrance transition is
  triggered at most once: once if the block ever entered the viewport, and then the block
  rests at opacity 1 and offset 0, otherwise never, and the block rests invisible and 12
  down. Entering, leaving and entering again ends in the state the first entry ended in.
\<close>

theorem section_entrance_at_most_once:
  assumes "b \<in> set (kids (Section i t k cs))"
  shows "plays (inview_run b evs (inview_mount b)) \<le> 1
         \<and> plays (inview_run b evs (inview_mount b)) = (if EnterViewport \<in> set evs then 1 else 0)
         \<and> pose (inview_run b evs (inview_mount b)) =
             (if EnterViewport \<in> set evs
              then Some (JObj [(''opacity'', JNum (js_lit 1)), (''y'', JNum (js_lit 0))])
              else Some (JObj [(''opacity'', JNum (js_lit 0)), (''y'', JNum (js_lit 12))]))
         \<and> inview_run b (evs @ EnterViewport # LeaveViewport # EnterViewport # evs')
               (inview_mount b)
             = inview_run b (evs @ [EnterViewport]) (inview_mount b)"
proof -
  note p = Section_block_props [OF assms]
  have r: "inview_run b es (inview_mount b) =
           (if EnterViewport \<in> set es
            then \<lparr>pose = Some (JObj [(''opacity'', JNum (js_lit 1)), (''y'', JNum (js_lit 0))]), plays = 1,
                  in_view = True, observing = False\<rparr>
            else inview_mount b)" for es
    using p by (intro inview_run_once) simp_all
  show ?thesis
    unfolding r using p by (simp add: inview_mount_def)
qed

theorem section_entrance_at_most_once_witness:
  "hd (kids (Section ''about'' (Text ''About'') (Text ''Introduction'') []))
     \<in> set (kids (Section ''about'' (Text ''About'') (Text ''Introduction'') []))
   \<and> plays (inview_run (hd (kids (Section ''about'' (Text ''About'') (Text ''Introduction'') [])))
              [EnterViewport, LeaveViewport, EnterViewport]
              (inview_mount
                 (hd (kids (Section ''about'' (Text ''About'') (Text ''Introduction'') []))))) = 1"
proof -
  have m: "hd (kids (Section ''about'' (Text ''About'') (Text ''Introduction'') []))
             \<in> set (kids (Section ''about'' (Text ''About'') (Text ''Introduction'') []))"
    by (simp add: Section_def kids_def)
  from section_entrance_at_most_once
         [OF m, of "[EnterViewport, LeaveViewport, EnterViewport]" "[]"] m
  show ?thesis by simp
qed

subsection \<open>The orbit controller of the hero scene\<close>

lemma find_OrbitControls:
  "find_tag ''OrbitControls'' PortfolioScene =
     [El ''OrbitControls''
        [(''enablePan'', JBool False), (''maxDistance'', JNum (js_lit 8)), (''minDistance'', JNum (js_lit 3))] []]"
  by (simp add: PortfolioScene_def Glow_def FloatingKnot_def SpinningTetra_def SceneBadge_def
      Let_def)

lemma scene_orbit_config_eq:
  "scene_orbit_config = \<lparr>enablePan = False, minDistance = 3, maxDistance = Some 8\<rparr>"
  unfolding scene_orbit_config_def find_OrbitControls
  by (simp add: orbit_config_of_def attr_def js_lit_def round_3 round_8)

lemma find_Canvas_Hero:
  "find_tag ''Canvas'' Hero =
     [El ''Canvas''
        [(''shadows'', JBool True),
         (''camera'',
          JObj [(''position'', JArr [JNum (js_lit 0), JNum (js_lit 1.2), JNum (js_lit 5.5)]), (''fov'', JNum (js_lit 42))])]
        [El ''Suspense'' [(''fallback'', JNull)] [PortfolioScene]]]"
  by (simp add: Hero_def PortfolioScene_def Glow_def FloatingKnot_def SpinningTetra_def
      SceneBadge_def Let_def)

text \<open>The camera's height \<^verbatim>\<open>1.2\<close> is the double nearest to 1.2.\<close>

lemma hero_camera_position_eq:
  "hero_camera_position = (0, 5404319552844595 / 4503599627370496, 11 / 2)"
  unfolding hero_camera_position_def find_Canvas_Hero
  by (simp add: attr_def js_lit_def round_0 round_6_5 round_11_2 of_rat_divide)

lemma clamp_scene:
  "3 \<le> clamp_distance scene_orbit_config r \<and> clamp_distance scene_orbit_config r \<le> 8"
  by (simp add: scene_orbit_config_eq clamp_distance_def)

lemma orbit_update_distance:
  "3 \<le> distance s \<and> distance s \<le> 8 \<Longrightarrow>
   3 \<le> distance (orbit_update scene_orbit_config inp s)
   \<and> distance (orbit_update scene_orbit_config inp s) \<le> 8"
  using clamp_scene [of "distance s * k" for k]
  by (cases inp) (simp_all add: orbit_update_def scene_orbit_config_eq)

lemma orbit_run_distance:
  "3 \<le> distance s \<and> distance s \<le> 8 \<Longrightarrow>
   3 \<le> distance (orbit_run scene_orbit_config inps s)
   \<and> distance (orbit_run scene_orbit_config inps s) \<le> 8"
proof (induction inps arbitrary: s)
  case Nil
  then show ?case by simp
next
  case (Cons inp inps)
  from orbit_update_distance [OF Cons.prems]
  show ?case by (simp add: Cons.IH)
qed

lemma scene_orbit_init_distance:
  "3 \<le> distance scene_orbit_init \<and> distance scene_orbit_init \<le> 8"
  unfolding scene_orbit_init_def orbit_create_def hero_camera_position_eq
  using clamp_scene by (simp add: Let_def)

lemma pan_disabled: "orbit_update scene_orbit_config (Pan dx dy dz) s = s"
  by (simp add: orbit_update_def scene_orbit_config_eq)

text \<open>The camera of the hero starts inside the range, so creating the controller moves nothing.\<close>

lemma hero_camera_distance_unclamped:
  "distance scene_orbit_init = sqrt ((5404319552844595 / 4503599627370496)\<^sup>2 + (11 / 2)\<^sup>2)"
proof -
  have a: "(3::real) \<le> sqrt ((5404319552844595 / 4503599627370496)\<^sup>2 + (11 / 2)\<^sup>2)"
    by (rule real_le_rsqrt) (simp add: power2_eq_square)
  have b: "sqrt ((5404319552844595 / 4503599627370496)\<^sup>2 + (11 / 2)\<^sup>2) \<le> (8::real)"
    by (rule real_le_lsqrt) (simp_all add: power2_eq_square)
  show ?thesis
    unfolding scene_orbit_init_def orbit_create_def hero_camera_position_eq
    using a b by (simp add: Let_def clamp_distance_def scene_orbit_config_eq)
qed

text \<open>A controller that allows panning does move the camera's target on the same input.\<close>

lemma pan_enabled_moves_target:
  "target (orbit_update \<lparr>enablePan = True, minDistance = 3, maxDistance = Some 8\<rparr> (Pan 1 0 0)
             \<lparr>distance = 5, azimuth = 0, polar = 0, target = (0, 0, 0)\<rparr>) = (1, 0, 0)"
  by (simp add: orbit_update_def)

text \<open>
  C6. After every sequence of rotate, zoom and pan inputs to the controller of the hero
  scene the camera's distance from its target is at least 3 and at most 8, and a pan input
  changes nothing: neither the controller's state nor the position of the camera.
\<close>

theorem camera_distance_clamped_pan_disabled:
  "3 \<le> distance (orbit_run scene_orbit_config inps scene_orbit_init)
   \<and> distance (orbit_run scene_orbit_config inps scene_orbit_init) \<le> 8
   \<and> orbit_update scene_orbit_config (Pan dx dy dz) s = s
   \<and> camera_position (orbit_update scene_orbit_config (Pan dx dy dz) s) = camera_position s"
  using orbit_run_distance [OF scene_orbit_init_distance, of inps]
  by (simp add: pan_disabled)

end
